theory Spec2Isabelle
  imports Complex_Main
begin

section \<open>Python values used by the ingest pipeline\<close>

text \<open>
  A Python \<^verbatim>\<open>str\<close> is a sequence of Unicode code points, so it is modelled as a list of
  natural numbers: \<^verbatim>\<open>len\<close> is \<open>length\<close>, slicing \<^verbatim>\<open>s[:n]\<close> is \<open>take n\<close>, and the
  Turkish letters the auto-selector looks for are single elements. \<open>lit\<close> writes an
  ASCII literal of the source.

  A Python \<^verbatim>\<open>float\<close> (confidences, thresholds) is modelled by the real number it
  denotes (no NaN): comparisons and the maximum of two floats are those of the reals. The one
  arithmetic operation of the pipeline, the addition \<^verbatim>\<open>score += 0.05\<close> of the
  auto-selector, rounds; it is the operation \<open>float_add\<close> of the environment, about which
  nothing is assumed.
\<close>

type_synonym pystr = "nat list"

definition lit :: "string \<Rightarrow> pystr" where
  "lit s = map of_char s"

text \<open>
  \<^verbatim>\<open>str.strip()\<close> with no argument removes leading and trailing white space in the sense
  of \<^verbatim>\<open>str.isspace\<close>; these are the code points CPython lists as white space.
\<close>

definition isspace :: "nat \<Rightarrow> bool" where
  "isspace c \<longleftrightarrow>
     (9 \<le> c \<and> c \<le> 13) \<or> (28 \<le> c \<and> c \<le> 32) \<or> c = 133 \<or> c = 160 \<or> c = 5760 \<or>
     (8192 \<le> c \<and> c \<le> 8202) \<or> c = 8232 \<or> c = 8233 \<or> c = 8239 \<or> c = 8287 \<or> c = 12288"

definition strip :: "pystr \<Rightarrow> pystr" where
  "strip s = rev (dropWhile isspace (rev (dropWhile isspace s)))"

text \<open>
  \<^verbatim>\<open>str.lower()\<close> is used by the registry only to compare the result with seven
  lower-case ASCII literals. The model lowers the ASCII letters and keeps every other code
  point: the only code point outside ASCII whose Python lower case is an ASCII letter is the
  Kelvin sign (lower case \<^verbatim>\<open>k\<close>), and no engine name contains a \<^verbatim>\<open>k\<close>, so
  every comparison of the registry has the same outcome.
\<close>

definition lower :: "pystr \<Rightarrow> pystr" where
  "lower s = map (\<lambda>c. if 65 \<le> c \<and> c \<le> 90 then c + 32 else c) s"

text \<open>
  The values of a \<^verbatim>\<open>dict[str, Any]\<close> (the configuration and the metadata); a dictionary
  is an association list in insertion order.
\<close>

datatype pyval =
    PNone
  | PBool bool
  | PInt int
  | PFloat real
  | PStr pystr
  | PDict "(pystr \<times> pyval) list"

type_synonym pydict = "(pystr \<times> pyval) list"

text \<open>
  Exceptions are values. Every constructor is an instance of Python's \<^verbatim>\<open>Exception\<close>, which
  is what the \<^verbatim>\<open>except Exception\<close> clauses of the pipeline catch; \<open>OtherException\<close>
  stands for whatever else an external library raises.
\<close>

datatype exn =
    ImportError pystr
  | ValueError pystr
  | NotImplementedError pystr
  | RuntimeError pystr
  | IndexError
  | OtherException pystr

section \<open>Data model (types.py, pipeline.py)\<close>

text \<open>
  The two dataclasses. \<^verbatim>\<open>text\<close> is a keyword of Isabelle, so the fields of
  \<^verbatim>\<open>RecognizeResult\<close> carry the prefix \<open>res_\<close> (\<open>mean_confidence\<close> apart) and the text
  of an \<^verbatim>\<open>IngestResult\<close> is \<open>out_text\<close>.
\<close>

record RecognizeResult =
  res_text :: pystr
  mean_confidence :: real
  res_engine :: pystr
  res_meta :: pydict

record IngestResult =
  input_path :: "pystr option"
  used_ocr :: bool
  engine :: "pystr option"
  ocr_confidence :: "real option"
  out_text :: pystr
  meta :: pydict

text \<open>
  The \<^verbatim>\<open>RecognizerAdapter\<close> protocol: three class attributes and two methods, each of
  which returns a result or raises. \<open>'img\<close> is the type of a page image.
\<close>

record 'img adapter =
  adapter_name :: pystr
  supports_pdf :: bool
  supports_image :: bool
  adapter_recognize_pdf :: "pystr \<Rightarrow> pydict option \<Rightarrow> exn + RecognizeResult"
  adapter_recognize_images :: "'img list \<Rightarrow> pydict option \<Rightarrow> exn + RecognizeResult"

text \<open>The seven adapter modules which the registry imports.\<close>

datatype engine_module = Paddle | Tesseract | EasyOCR | DocTR | TrOCR | Donut | Nougat

text \<open>
  What the pipeline does to the outside world, in the order it does it: a \<^verbatim>\<open>pip install\<close>
  of autodeps, a call of the embedded-text extractor, a call of the rasterizer, the
  construction of an adapter through the registry (with the identifier the pipeline asked
  for), and a call of an adapter's method.
\<close>

datatype 'img event =
    PipInstall "pystr list"
  | ExtractText pystr
  | Rasterize pystr int "int option" "int option"
  | Build pystr
  | CallRecognizePdf pystr pystr "pydict option"
  | CallRecognizeImages pystr "'img list" "pydict option"

text \<open>
  The external collaborators: the environment flag of autodeps, the two optional-import
  flags of pipeline.py, pdfminer's \<^verbatim>\<open>extract_text\<close>, pdf2image's
  \<^verbatim>\<open>convert_from_path\<close>, the \<^verbatim>\<open>create()\<close> of each adapter module,
  \<^verbatim>\<open>Image.size\<close> and \<^verbatim>\<open>Image.crop\<close> of the imaging library (which raise on an image
  that cannot be loaded, such as a truncated file opened lazily), and the addition of two
  floats. Each is a function of its arguments.
\<close>

record 'img env =
  should_auto_install :: bool
  has_pdfminer :: bool
  has_pdf2image :: bool
  pdfminer_extract_text :: "pystr \<Rightarrow> exn + pystr"
  convert_from_path :: "pystr \<Rightarrow> int \<Rightarrow> int option \<Rightarrow> int option \<Rightarrow> exn + 'img list"
  create :: "engine_module \<Rightarrow> exn + 'img adapter"
  image_size :: "'img \<Rightarrow> exn + int \<times> int"
  image_crop :: "'img \<Rightarrow> int \<times> int \<times> int \<times> int \<Rightarrow> exn + 'img"
  float_add :: "real \<Rightarrow> real \<Rightarrow> real"

section \<open>autodeps.py\<close>

definition engine_to_packages :: "pystr \<Rightarrow> pystr list" where
  "engine_to_packages e =
     (if e = lit ''paddle'' then [lit ''paddleocr>=2.7.0.3'']
      else if e = lit ''easyocr'' then [lit ''easyocr>=1.7.1'']
      else if e = lit ''tesseract'' then [lit ''pytesseract>=0.3.10'']
      else if e = lit ''doctr'' then [lit ''python-doctr[torch]>=0.8.1'']
      else if e = lit ''trocr'' then [lit ''transformers>=4.41.0'', lit ''timm>=1.0.0'']
      else if e = lit ''donut'' then [lit ''transformers>=4.41.0'', lit ''timm>=1.0.0'']
      else if e = lit ''nougat'' then [lit ''transformers>=4.41.0'']
      else [])"

definition common_packages :: "pystr list" where
  "common_packages =
     [lit ''pdfminer.six>=20221105'', lit ''pdf2image>=1.16.3'', lit ''pillow>=10.0.0'',
      lit ''numpy>=1.20.0'', lit ''tenacity>=8.0.0'']"

text \<open>
  \<^verbatim>\<open>_pip_install\<close> catches every exception of the subprocess and its result is ignored by
  both callers, so each of them only leaves an event.
\<close>

definition ensure_common :: "'img env \<Rightarrow> 'img event list" where
  "ensure_common env = (if \<not> should_auto_install env then [] else [PipInstall common_packages])"

definition ensure_for_engine :: "'img env \<Rightarrow> pystr \<Rightarrow> 'img event list" where
  "ensure_for_engine env e =
     (if \<not> should_auto_install env then []
      else let pkgs = engine_to_packages e in if pkgs \<noteq> [] then [PipInstall pkgs] else [])"

section \<open>pipeline.py\<close>

subsection \<open>The vector-text gate\<close>

definition is_sufficient_vector_text :: "pystr \<Rightarrow> int \<Rightarrow> bool" where
  "is_sufficient_vector_text t min_len =
     (if t = [] then False else int (length (strip t)) \<ge> min_len)"

text \<open>
  Step 1 of \<^verbatim>\<open>recognize_pdf\<close>: the embedded text, which stays empty when
  \<^verbatim>\<open>prefer_ocr\<close> is set, when pdfminer is missing or when the extractor raises.
\<close>

definition vector_text_step :: "'img env \<Rightarrow> pystr \<Rightarrow> bool \<Rightarrow> pystr \<times> 'img event list" where
  "vector_text_step env path prefer_ocr =
     (if \<not> prefer_ocr \<and> has_pdfminer env then
        (case pdfminer_extract_text env path of
           Inr t \<Rightarrow> (t, [ExtractText path])
         | Inl e \<Rightarrow> ([], [ExtractText path]))
      else ([], []))"

subsection \<open>Rasterization and the pilot crop\<close>

definition load_images_from_pdf ::
  "'img env \<Rightarrow> pystr \<Rightarrow> int \<Rightarrow> int option \<Rightarrow> int option \<Rightarrow> (exn + 'img list) \<times> 'img event list" where
  "load_images_from_pdf env path dpi first_page last_page =
     (if \<not> has_pdf2image env then
        (Inl (ImportError (lit ''pdf2image not available. Install extras: pip install .[ingest]'')), [])
      else (convert_from_path env path dpi first_page last_page,
            [Rasterize path dpi first_page last_page]))"

text \<open>
  The loop of \<^verbatim>\<open>_pilot_crop\<close> over \<^verbatim>\<open>images[:1]\<close>; an exception of
  \<^verbatim>\<open>im.size\<close> or \<^verbatim>\<open>im.crop\<close> ends it.
\<close>

fun crop_each :: "'img env \<Rightarrow> int \<Rightarrow> 'img list \<Rightarrow> exn + 'img list" where
  "crop_each env max_side [] = Inr []"
| "crop_each env max_side (im # ims) =
     (case image_size env im of
        Inl e \<Rightarrow> Inl e
      | Inr (w, h) \<Rightarrow>
          (case image_crop env im (0, 0, min w max_side, min h max_side) of
             Inl e \<Rightarrow> Inl e
           | Inr c \<Rightarrow>
               (case crop_each env max_side ims of
                  Inl e \<Rightarrow> Inl e
                | Inr out \<Rightarrow> Inr (c # out))))"

definition pilot_crop :: "'img env \<Rightarrow> 'img list \<Rightarrow> int \<Rightarrow> exn + 'img list" where
  "pilot_crop env images max_side =
     (case crop_each env max_side (take 1 images) of
        Inl e \<Rightarrow> Inl e
      | Inr out \<Rightarrow> Inr (if out \<noteq> [] then out else take 1 images))"

subsection \<open>The adapter registry\<close>

definition build_adapter :: "'img env \<Rightarrow> pystr \<Rightarrow> exn + 'img adapter" where
  "build_adapter env engine_id =
     (let e = lower engine_id in
      if e = lit ''paddle'' then create env Paddle
      else if e = lit ''tesseract'' then create env Tesseract
      else if e = lit ''easyocr'' then create env EasyOCR
      else if e = lit ''doctr'' then create env DocTR
      else if e = lit ''trocr'' then create env TrOCR
      else if e = lit ''donut'' then create env Donut
      else if e = lit ''nougat'' then create env Nougat
      else Inl (ValueError (lit ''Unknown engine: '' @ engine_id)))"

subsection \<open>Engine auto-selection\<close>

text \<open>The letters of the source's literal, as code points, in the order they are written.\<close>

definition turkish_chars :: pystr where
  "turkish_chars = [231, 287, 305, 246, 351, 252, 199, 286, 304, 214, 350, 220]"

definition then_events :: "'e list \<Rightarrow> 'a \<times> 'e list \<Rightarrow> 'a \<times> 'e list" where
  "then_events ev r = (fst r, ev @ snd r)"

text \<open>
  The body of the \<^verbatim>\<open>try\<close> of \<^verbatim>\<open>auto_select_engine\<close> up to the comparison: the score
  of one candidate, or the exception that makes the loop skip it.
\<close>

definition pilot_score ::
  "'img env \<Rightarrow> 'img list \<Rightarrow> pydict option \<Rightarrow> pystr \<Rightarrow> (exn + real) \<times> 'img event list" where
  "pilot_score env pilot_images cfg name =
     (case build_adapter env name of
        Inl e \<Rightarrow> (Inl e, [Build name])
      | Inr a \<Rightarrow>
          (case adapter_recognize_images a pilot_images cfg of
             Inl e \<Rightarrow> (Inl e, [Build name, CallRecognizeImages name pilot_images cfg])
           | Inr res \<Rightarrow>
               (let score = mean_confidence res;
                    txt = take 512 (res_text res);
                    score = (if list_ex (\<lambda>ch. ch \<in> set txt) turkish_chars
                             then float_add env score 0.05 else score)
                in (Inr score, [Build name, CallRecognizeImages name pilot_images cfg]))))"

fun auto_select_loop ::
  "'img env \<Rightarrow> 'img list \<Rightarrow> pydict option \<Rightarrow> pystr list \<Rightarrow> pystr option \<Rightarrow> real
     \<Rightarrow> pystr option \<times> 'img event list" where
  "auto_select_loop env pilot_images cfg [] best_name best_score = (best_name, [])"
| "auto_select_loop env pilot_images cfg (name # rest) best_name best_score =
     (case pilot_score env pilot_images cfg name of
        (Inl e, ev) \<Rightarrow>
          then_events ev (auto_select_loop env pilot_images cfg rest best_name best_score)
      | (Inr score, ev) \<Rightarrow>
          if score > best_score
          then then_events ev (auto_select_loop env pilot_images cfg rest (Some name) score)
          else then_events ev (auto_select_loop env pilot_images cfg rest best_name best_score))"

definition default_candidates :: "pystr list" where
  "default_candidates = [lit ''paddle'', lit ''easyocr'', lit ''tesseract'']"

text \<open>
  The pilot crop is taken before the loop and outside its \<^verbatim>\<open>try\<close>, so an exception of
  the crop is an exception of the selector. \<^verbatim>\<open>best_name or candidates[0]\<close>: a name that
  is \<^verbatim>\<open>None\<close> or empty gives way to the first candidate, and indexing an empty sequence
  raises.
\<close>

definition auto_select_engine ::
  "'img env \<Rightarrow> 'img list \<Rightarrow> pystr list \<Rightarrow> pydict option \<Rightarrow> (exn + pystr) \<times> 'img event list" where
  "auto_select_engine env images candidates cfg =
     (case pilot_crop env images 512 of
        Inl e \<Rightarrow> (Inl e, [])
      | Inr pilot_images \<Rightarrow>
          (case auto_select_loop env pilot_images cfg candidates None (- 1) of
             (best_name, ev) \<Rightarrow>
               (case best_name of
                  Some n \<Rightarrow>
                    if n \<noteq> [] then (Inr n, ev)
                    else (case candidates of [] \<Rightarrow> Inl IndexError | c # _ \<Rightarrow> Inr c, ev)
                | None \<Rightarrow> (case candidates of [] \<Rightarrow> Inl IndexError | c # _ \<Rightarrow> Inr c, ev))))"

subsection \<open>The engine candidate order\<close>

definition append_defaults :: "pystr list \<Rightarrow> pystr list" where
  "append_defaults order =
     foldl (\<lambda>order name. if name \<notin> set order then order @ [name] else order)
       order [lit ''paddle'', lit ''easyocr'', lit ''tesseract'']"

text \<open>Step 4 of \<^verbatim>\<open>recognize_pdf\<close> before the loop.\<close>

definition pdf_order :: "pystr \<Rightarrow> pystr list option \<Rightarrow> pystr list" where
  "pdf_order engine_id fallback_order =
     (let order = (case fallback_order of
                     Some fo \<Rightarrow> if fo \<noteq> [] then fo else [engine_id]
                   | None \<Rightarrow> [engine_id]);
          order = (if engine_id \<notin> set order then engine_id # order else order)
      in append_defaults order)"

text \<open>The same step of \<^verbatim>\<open>recognize_images\<close>, which has no caller-supplied order.\<close>

definition images_order :: "pystr \<Rightarrow> pystr list" where
  "images_order engine_id = append_defaults [engine_id]"

subsection \<open>The fallback executor\<close>

text \<open>
  The body of the \<^verbatim>\<open>try\<close> of each loop up to the assignment of \<^verbatim>\<open>res\<close>: the engine's
  result, or the exception that makes the loop go on.
\<close>

definition try_engine_pdf ::
  "'img env \<Rightarrow> pystr \<Rightarrow> 'img list \<Rightarrow> pydict \<Rightarrow> pystr
     \<Rightarrow> (exn + RecognizeResult) \<times> 'img event list" where
  "try_engine_pdf env path images ocr_cfg name =
     (let ev = ensure_for_engine env name @ [Build name] in
      case build_adapter env name of
        Inl e \<Rightarrow> (Inl e, ev)
      | Inr a \<Rightarrow>
          if supports_pdf a
          then (adapter_recognize_pdf a path (Some ocr_cfg),
                ev @ [CallRecognizePdf name path (Some ocr_cfg)])
          else (adapter_recognize_images a images (Some ocr_cfg),
                ev @ [CallRecognizeImages name images (Some ocr_cfg)]))"

definition try_engine_images ::
  "'img env \<Rightarrow> 'img list \<Rightarrow> pydict \<Rightarrow> pystr \<Rightarrow> (exn + RecognizeResult) \<times> 'img event list" where
  "try_engine_images env images ocr_cfg name =
     (let ev = ensure_for_engine env name @ [Build name] in
      case build_adapter env name of
        Inl e \<Rightarrow> (Inl e, ev)
      | Inr a \<Rightarrow>
          (adapter_recognize_images a images (Some ocr_cfg),
           ev @ [CallRecognizeImages name images (Some ocr_cfg)]))"

text \<open>
  The loops of \<^verbatim>\<open>recognize_pdf\<close> and \<^verbatim>\<open>recognize_images\<close>, with \<^verbatim>\<open>last_res\<close> as
  the accumulator; the equation for the empty order is the code after the loop.
\<close>

fun pdf_fallback ::
  "'img env \<Rightarrow> pystr \<Rightarrow> 'img list \<Rightarrow> pydict \<Rightarrow> real \<Rightarrow> pystr list \<Rightarrow> RecognizeResult option
     \<Rightarrow> (exn + IngestResult) \<times> 'img event list" where
  "pdf_fallback env path images ocr_cfg confidence_threshold [] last_res =
     (case last_res of
        Some l \<Rightarrow>
          (Inr \<lparr>input_path = Some path, used_ocr = True, engine = Some (res_engine l),
                ocr_confidence = Some (mean_confidence l), out_text = res_text l,
                meta = res_meta l\<rparr>, [])
      | None \<Rightarrow> (Inl (RuntimeError (lit ''No OCR engine succeeded for given PDF'')), []))"
| "pdf_fallback env path images ocr_cfg confidence_threshold (name # rest) last_res =
     (case try_engine_pdf env path images ocr_cfg name of
        (Inl e, ev) \<Rightarrow>
          then_events ev
            (pdf_fallback env path images ocr_cfg confidence_threshold rest last_res)
      | (Inr res, ev) \<Rightarrow>
          if mean_confidence res \<ge> confidence_threshold
          then (Inr \<lparr>input_path = Some path, used_ocr = True, engine = Some name,
                     ocr_confidence = Some (mean_confidence res), out_text = res_text res,
                     meta = res_meta res\<rparr>, ev)
          else then_events ev
                 (pdf_fallback env path images ocr_cfg confidence_threshold rest (Some res)))"

fun images_fallback ::
  "'img env \<Rightarrow> 'img list \<Rightarrow> pydict \<Rightarrow> real \<Rightarrow> pystr list \<Rightarrow> RecognizeResult option
     \<Rightarrow> (exn + IngestResult) \<times> 'img event list" where
  "images_fallback env images ocr_cfg confidence_threshold [] last_res =
     (case last_res of
        Some l \<Rightarrow>
          (Inr \<lparr>input_path = None, used_ocr = True, engine = Some (res_engine l),
                ocr_confidence = Some (mean_confidence l), out_text = res_text l,
                meta = res_meta l\<rparr>, [])
      | None \<Rightarrow> (Inl (RuntimeError (lit ''No OCR engine succeeded for images'')), []))"
| "images_fallback env images ocr_cfg confidence_threshold (name # rest) last_res =
     (case try_engine_images env images ocr_cfg name of
        (Inl e, ev) \<Rightarrow>
          then_events ev (images_fallback env images ocr_cfg confidence_threshold rest last_res)
      | (Inr res, ev) \<Rightarrow>
          if mean_confidence res \<ge> confidence_threshold
          then (Inr \<lparr>input_path = None, used_ocr = True, engine = Some name,
                     ocr_confidence = Some (mean_confidence res), out_text = res_text res,
                     meta = res_meta res\<rparr>, ev)
          else then_events ev
                 (images_fallback env images ocr_cfg confidence_threshold rest (Some res)))"

subsection \<open>The entry points\<close>

text \<open>\<^verbatim>\<open>ocr_cfg or {}\<close>: \<^verbatim>\<open>None\<close> and the empty dictionary both give the empty one.\<close>

definition cfg_or_empty :: "pydict option \<Rightarrow> pydict" where
  "cfg_or_empty c = (case c of Some d \<Rightarrow> if d \<noteq> [] then d else [] | None \<Rightarrow> [])"

text \<open>
  Step 3 of \<^verbatim>\<open>recognize_pdf\<close>, and the same lines of \<^verbatim>\<open>recognize_images\<close>. (The
  local \<^verbatim>\<open>meta\<close> of \<^verbatim>\<open>recognize_pdf\<close> is never read and has no counterpart here.)
\<close>

definition choose_engine ::
  "'img env \<Rightarrow> 'img list \<Rightarrow> pystr \<Rightarrow> pydict \<Rightarrow> (exn + pystr) \<times> 'img event list" where
  "choose_engine env images engine_id ocr_cfg =
     (if engine_id = lit ''auto''
      then auto_select_engine env images default_candidates (Some ocr_cfg)
      else (Inr engine_id, []))"

definition recognize_pdf ::
  "'img env \<Rightarrow> pystr \<Rightarrow> pystr \<Rightarrow> bool \<Rightarrow> pydict option \<Rightarrow> int \<Rightarrow> int option \<Rightarrow> int option
     \<Rightarrow> real \<Rightarrow> pystr list option \<Rightarrow> (exn + IngestResult) \<times> 'img event list" where
  "recognize_pdf env path engine_id prefer_ocr ocr_cfg dpi first_page last_page
       confidence_threshold fallback_order =
     (let ocr_cfg = cfg_or_empty ocr_cfg;
          ev0 = ensure_common env;
          (vector_text, ev1) = vector_text_step env path prefer_ocr
      in if vector_text \<noteq> [] \<and> is_sufficient_vector_text vector_text 64
         then (Inr \<lparr>input_path = Some path, used_ocr = False, engine = None,
                    ocr_confidence = None, out_text = vector_text,
                    meta = [(lit ''vector'', PBool True)]\<rparr>, ev0 @ ev1)
         else
           (case load_images_from_pdf env path dpi first_page last_page of
              (Inl e, ev2) \<Rightarrow> (Inl e, ev0 @ ev1 @ ev2)
            | (Inr images, ev2) \<Rightarrow>
                (case choose_engine env images engine_id ocr_cfg of
                   (Inl e, ev3) \<Rightarrow> (Inl e, ev0 @ ev1 @ ev2 @ ev3)
                 | (Inr engine_id, ev3) \<Rightarrow>
                     then_events (ev0 @ ev1 @ ev2 @ ev3)
                       (pdf_fallback env path images ocr_cfg confidence_threshold
                          (pdf_order engine_id fallback_order) None))))"

definition recognize_images ::
  "'img env \<Rightarrow> 'img list \<Rightarrow> pystr \<Rightarrow> pydict option \<Rightarrow> real
     \<Rightarrow> (exn + IngestResult) \<times> 'img event list" where
  "recognize_images env images engine_id ocr_cfg confidence_threshold =
     (let ocr_cfg = cfg_or_empty ocr_cfg;
          ev0 = ensure_common env
      in case choose_engine env images engine_id ocr_cfg of
           (Inl e, ev1) \<Rightarrow> (Inl e, ev0 @ ev1)
         | (Inr engine_id, ev1) \<Rightarrow>
             then_events (ev0 @ ev1)
               (images_fallback env images ocr_cfg confidence_threshold
                  (images_order engine_id) None))"

text \<open>Python's \<^verbatim>\<open>max(a, b)\<close> keeps \<^verbatim>\<open>a\<close> unless \<^verbatim>\<open>b\<close> is greater.\<close>

definition py_max :: "real \<Rightarrow> real \<Rightarrow> real" where
  "py_max a b = (if b > a then b else a)"

definition maybe_enable_htr ::
  "'img env \<Rightarrow> 'img list \<Rightarrow> bool \<Rightarrow> pystr \<Rightarrow> pystr \<Rightarrow> pydict option
     \<Rightarrow> (exn + IngestResult) \<times> 'img event list" where
  "maybe_enable_htr env images enable_htr printed_text_engine htr_engine ocr_cfg =
     (if \<not> enable_htr then recognize_images env images printed_text_engine ocr_cfg 0.6
      else
        (case recognize_images env images printed_text_engine ocr_cfg 0.6 of
           (Inl e, ev) \<Rightarrow> (Inl e, ev)
         | (Inr printed, ev) \<Rightarrow>
             (case build_adapter env htr_engine of
                Inl e \<Rightarrow> (Inr printed, ev @ [Build htr_engine])
              | Inr htr_adapter \<Rightarrow>
                  (case adapter_recognize_images htr_adapter images ocr_cfg of
                     Inl e \<Rightarrow>
                       (Inr printed,
                        ev @ [Build htr_engine, CallRecognizeImages htr_engine images ocr_cfg])
                   | Inr htr_res \<Rightarrow>
                       (let combined_text = out_text printed @ [10] @ res_text htr_res;
                            mean_conf =
                              py_max (case ocr_confidence printed of
                                        Some c \<Rightarrow> if c \<noteq> 0 then c else 0
                                      | None \<Rightarrow> 0)
                                (mean_confidence htr_res)
                        in (Inr \<lparr>input_path = None, used_ocr = True,
                                 engine = Some ((case engine printed of
                                                   Some p \<Rightarrow> p
                                                 | None \<Rightarrow> lit ''None'')
                                                @ lit ''+'' @ res_engine htr_res),
                                 ocr_confidence = Some mean_conf, out_text = combined_text,
                                 meta = [(lit ''printed'', PDict (meta printed)),
                                         (lit ''htr'', PDict (res_meta htr_res))]\<rparr>,
                            ev @ [Build htr_engine,
                                  CallRecognizeImages htr_engine images ocr_cfg]))))))"

section \<open>Observations on results and traces\<close>

text \<open>The engines whose construction a trace records, in order.\<close>

fun built :: "'img event list \<Rightarrow> pystr list" where
  "built [] = []"
| "built (Build n # es) = n # built es"
| "built (e # es) = built es"


text \<open>An attempt clears the threshold when it returns a result whose confidence reaches it.\<close>

definition clears :: "real \<Rightarrow> exn + RecognizeResult \<Rightarrow> bool" where
  "clears thr r = (case r of Inr res \<Rightarrow> thr \<le> mean_confidence res | Inl e \<Rightarrow> False)"


text \<open>
  The results which the attempts on an order return, in order, and the last of them (or what
  was there before, when no attempt returns one).
\<close>

definition successes :: "(pystr \<Rightarrow> exn + RecognizeResult) \<Rightarrow> pystr list \<Rightarrow> RecognizeResult list" where
  "successes f order = [r. Inr r \<leftarrow> map f order]"

definition last_result ::
  "(pystr \<Rightarrow> exn + RecognizeResult) \<Rightarrow> pystr list \<Rightarrow> RecognizeResult option \<Rightarrow> RecognizeResult option" where
  "last_result f order l0 = (if successes f order = [] then l0 else Some (last (successes f order)))"


section \<open>Stub adapters\<close>

text \<open>
  Deterministic adapters in the manner of the test-suite's \<^verbatim>\<open>DummyAdapter\<close>, an
  environment around a registry of them (images are numbers; the rasterizer returns one page
  which is the requested resolution; floats are added without rounding), and the registry of
  three image-only engines with confidences 0.3, 0.9 and 0.99.
\<close>

definition stub_result :: "pystr \<Rightarrow> real \<Rightarrow> pystr \<Rightarrow> RecognizeResult" where
  "stub_result t c n = \<lparr>res_text = t, mean_confidence = c, res_engine = n, res_meta = []\<rparr>"

definition stub_adapter ::
  "pystr \<Rightarrow> bool \<Rightarrow> (exn + RecognizeResult) \<Rightarrow> (nat list \<Rightarrow> exn + RecognizeResult) \<Rightarrow> nat adapter" where
  "stub_adapter n pdf on_pdf on_images =
     \<lparr>adapter_name = n, supports_pdf = pdf, supports_image = True,
      adapter_recognize_pdf = (\<lambda>path cfg. on_pdf),
      adapter_recognize_images = (\<lambda>images cfg. on_images images)\<rparr>"

definition stub_env :: "(engine_module \<Rightarrow> exn + nat adapter) \<Rightarrow> (exn + pystr) \<Rightarrow> nat env" where
  "stub_env registry embedded =
     \<lparr>should_auto_install = False, has_pdfminer = True, has_pdf2image = True,
      pdfminer_extract_text = (\<lambda>path. embedded),
      convert_from_path = (\<lambda>path dpi first_page last_page. Inr [nat dpi]),
      create = registry,
      image_size = (\<lambda>im. Inr (100, 100)),
      image_crop = (\<lambda>im box. Inr im),
      float_add = (\<lambda>a b. a + b)\<rparr>"

definition image_only :: "pystr \<Rightarrow> pystr \<Rightarrow> real \<Rightarrow> exn + nat adapter" where
  "image_only n t c =
     Inr (stub_adapter n False (Inl (NotImplementedError [])) (\<lambda>images. Inr (stub_result t c n)))"

definition xyz_registry :: "engine_module \<Rightarrow> exn + nat adapter" where
  "xyz_registry m =
     (case m of
        Paddle \<Rightarrow> image_only (lit ''paddle'') (lit ''x'') 0.3
      | EasyOCR \<Rightarrow> image_only (lit ''easyocr'') (lit ''y'') 0.9
      | Tesseract \<Rightarrow> image_only (lit ''tesseract'') (lit ''z'') 0.99
      | _ \<Rightarrow> Inl (ImportError []))"


text \<open>
  Two engines that stay below any usual threshold (confidences 0.2 and 0.3) beside engines that
  cannot be constructed, and a registry in which no engine can be constructed.
\<close>

definition low_registry :: "engine_module \<Rightarrow> exn + nat adapter" where
  "low_registry m =
     (case m of
        Paddle \<Rightarrow> image_only (lit ''paddle'') (lit ''x'') 0.2
      | EasyOCR \<Rightarrow> image_only (lit ''easyocr'') (lit ''y'') 0.3
      | _ \<Rightarrow> Inl (ImportError []))"

definition no_registry :: "engine_module \<Rightarrow> exn + nat adapter" where
  "no_registry m = Inl (ImportError [])"

text \<open>
  The candidate order as the specification words it: duplicates removed, keeping the first
  occurrence.
\<close>

definition dedup_first :: "pystr list \<Rightarrow> pystr list" where
  "dedup_first xs = rev (remdups (rev xs))"

text \<open>
  An engine that finds nothing on the page (empty text, confidence 0, as the adapters report
  it) beside engines that cannot be constructed; and a printed-text engine with a
  handwriting engine.
\<close>

definition blank_registry :: "engine_module \<Rightarrow> exn + nat adapter" where
  "blank_registry m =
     (case m of
        Paddle \<Rightarrow> image_only (lit ''paddle'') [] 0
      | _ \<Rightarrow> Inl (ImportError []))"

definition htr_registry :: "engine_module \<Rightarrow> exn + nat adapter" where
  "htr_registry m =
     (case m of
        Paddle \<Rightarrow> image_only (lit ''paddle'') (lit ''P'') 0.5
      | TrOCR \<Rightarrow> image_only (lit ''trocr'') (lit ''H'') 0.8
      | _ \<Rightarrow> Inl (ImportError []))"

text \<open>
  The two scenarios of the specification for auto-selection: a candidate with confidence 0.6
  and plain text before one with confidence 0.65 whose text has a Turkish letter; and two
  candidates with the same confidence.
\<close>

definition bonus_registry :: "engine_module \<Rightarrow> exn + nat adapter" where
  "bonus_registry m =
     (case m of
        Paddle \<Rightarrow> image_only (lit ''paddle'') (lit ''a'') 0.6
      | EasyOCR \<Rightarrow> image_only (lit ''easyocr'') [98, 32, 231] 0.65
      | _ \<Rightarrow> Inl (ImportError []))"

definition tie_registry :: "engine_module \<Rightarrow> exn + nat adapter" where
  "tie_registry m =
     (case m of
        Paddle \<Rightarrow> image_only (lit ''paddle'') (lit ''a'') 0.6
      | EasyOCR \<Rightarrow> image_only (lit ''easyocr'') (lit ''b'') 0.6
      | _ \<Rightarrow> Inl (ImportError []))"

text \<open>
  A near tie: a candidate with confidence 0.7 before one with confidence 0.65 whose text has a
  Turkish letter, in an environment whose addition rounds the sum upwards, as the
  floating-point addition does for \<^verbatim>\<open>0.65 + 0.05\<close> (Python prints
  \<^verbatim>\<open>0.7000000000000001\<close>).
\<close>

definition near_tie_registry :: "engine_module \<Rightarrow> exn + nat adapter" where
  "near_tie_registry m =
     (case m of
        Paddle \<Rightarrow> image_only (lit ''paddle'') (lit ''a'') 0.7
      | EasyOCR \<Rightarrow> image_only (lit ''easyocr'') [98, 32, 231] 0.65
      | _ \<Rightarrow> Inl (ImportError []))"

definition rounding_env :: "(engine_module \<Rightarrow> exn + nat adapter) \<Rightarrow> nat env" where
  "rounding_env registry =
     (stub_env registry (Inl IndexError))
       \<lparr>float_add := (\<lambda>a b. a + b + 0.0000000000000001)\<rparr>"

text \<open>
  An environment whose images cannot be loaded, as a truncated file that was opened lazily:
  reading works until the pixels are needed, and \<^verbatim>\<open>crop\<close> raises.
\<close>

definition unreadable_image_env :: "(engine_module \<Rightarrow> exn + nat adapter) \<Rightarrow> nat env" where
  "unreadable_image_env registry =
     (stub_env registry (Inl IndexError))
       \<lparr>image_crop := (\<lambda>im box. Inl (OtherException (lit ''image file is truncated'')))\<rparr>"

text \<open>
  A PDF-capable engine beside an image-only engine whose result depends on the rasterized
  pages: it is confident on the page rendered at 300 dpi and not on any other.
\<close>

definition dpi_registry :: "engine_module \<Rightarrow> exn + nat adapter" where
  "dpi_registry m =
     (case m of
        Paddle \<Rightarrow>
          Inr (stub_adapter (lit ''paddle'') True
                 (Inr (stub_result (lit ''pdf'') 0.8 (lit ''paddle'')))
                 (\<lambda>images. Inr (stub_result (lit ''img'') 0.7 (lit ''paddle''))))
      | Tesseract \<Rightarrow>
          Inr (stub_adapter (lit ''tesseract'') False (Inl (NotImplementedError []))
                 (\<lambda>images. if images = [300]
                            then Inr (stub_result (lit ''sharp'') 0.9 (lit ''tesseract''))
                            else Inr (stub_result (lit ''blur'') 0.1 (lit ''tesseract''))))
      | _ \<Rightarrow> Inl (ImportError []))"

section \<open>Properties of the pipeline\<close>

subsection \<open>Traces\<close>

lemma then_events_simps [simp]:
  "fst (then_events ev r) = fst r" "snd (then_events ev r) = ev @ snd r"
  by (simp_all add: then_events_def)

lemma built_append [simp]: "built (a @ b) = built a @ built b"
  by (induction a rule: built.induct) simp_all

lemma built_ensure [simp]: "built (ensure_for_engine env n) = []"
  by (simp add: ensure_for_engine_def Let_def)

lemma built_try_pdf [simp]: "built (snd (try_engine_pdf env path images cfg n)) = [n]"
  by (simp add: try_engine_pdf_def Let_def split: sum.split)

lemma built_try_images [simp]: "built (snd (try_engine_images env images cfg n)) = [n]"
  by (simp add: try_engine_images_def Let_def split: sum.split)

subsection \<open>The fallback executor\<close>

lemma last_result_Nil [simp]: "last_result f [] l0 = l0"
  by (simp add: last_result_def successes_def)

lemma last_result_Cons:
  "last_result f (n # ns) l0 =
     last_result f ns (case f n of Inr r \<Rightarrow> Some r | Inl e \<Rightarrow> l0)"
  by (cases "f n") (simp_all add: last_result_def successes_def)

lemma pdf_fallback_skip:
  "\<forall>n \<in> set pre. \<not> clears thr (fst (try_engine_pdf env path images cfg n)) \<Longrightarrow>
   pdf_fallback env path images cfg thr (pre @ rest) l0 =
     then_events (concat (map (\<lambda>n. snd (try_engine_pdf env path images cfg n)) pre))
       (pdf_fallback env path images cfg thr rest
          (last_result (\<lambda>n. fst (try_engine_pdf env path images cfg n)) pre l0))"
proof (induction pre arbitrary: l0)
  case Nil
  then show ?case by (simp add: then_events_def)
next
  case (Cons a pre)
  obtain r ev where t: "try_engine_pdf env path images cfg a = (r, ev)"
    by (cases "try_engine_pdf env path images cfg a")
  from Cons.prems have rest: "\<forall>n \<in> set pre. \<not> clears thr (fst (try_engine_pdf env path images cfg n))"
    and a: "\<not> clears thr r" using t by simp_all
  show ?case
  proof (cases r)
    case (Inl e)
    with t Cons.IH [OF rest, of l0] show ?thesis
      by (simp add: last_result_Cons then_events_def)
  next
    case (Inr res)
    with a have "\<not> thr \<le> mean_confidence res" by (simp add: clears_def)
    with Inr t Cons.IH [OF rest, of "Some res"] show ?thesis
      by (simp add: last_result_Cons then_events_def)
  qed
qed

lemma images_fallback_skip:
  "\<forall>n \<in> set pre. \<not> clears thr (fst (try_engine_images env images cfg n)) \<Longrightarrow>
   images_fallback env images cfg thr (pre @ rest) l0 =
     then_events (concat (map (\<lambda>n. snd (try_engine_images env images cfg n)) pre))
       (images_fallback env images cfg thr rest
          (last_result (\<lambda>n. fst (try_engine_images env images cfg n)) pre l0))"
proof (induction pre arbitrary: l0)
  case Nil
  then show ?case by (simp add: then_events_def)
next
  case (Cons a pre)
  obtain r ev where t: "try_engine_images env images cfg a = (r, ev)"
    by (cases "try_engine_images env images cfg a")
  from Cons.prems have rest: "\<forall>n \<in> set pre. \<not> clears thr (fst (try_engine_images env images cfg n))"
    and a: "\<not> clears thr r" using t by simp_all
  show ?case
  proof (cases r)
    case (Inl e)
    with t Cons.IH [OF rest, of l0] show ?thesis
      by (simp add: last_result_Cons then_events_def)
  next
    case (Inr res)
    with a have "\<not> thr \<le> mean_confidence res" by (simp add: clears_def)
    with Inr t Cons.IH [OF rest, of "Some res"] show ?thesis
      by (simp add: last_result_Cons then_events_def)
  qed
qed

lemma built_concat_pdf [simp]:
  "built (concat (map (\<lambda>n. snd (try_engine_pdf env path images cfg n)) ns)) = ns"
  by (induction ns) simp_all

lemma built_concat_images [simp]:
  "built (concat (map (\<lambda>n. snd (try_engine_images env images cfg n)) ns)) = ns"
  by (induction ns) simp_all

text \<open>
  C1. The fallback executor tries the engines in order and stops at the first whose attempt
  returns a result with a confidence of at least the threshold: when no engine of \<open>pre\<close>
  clears the threshold and \<open>name\<close> does, the outcome is that of \<open>name\<close> (recognition
  used, the identifier \<open>name\<close>, its confidence, text and metadata), and the trace is that of the
  attempts on \<open>pre\<close> and \<open>name\<close> alone, so that the engines constructed are exactly
  \<open>pre @ [name]\<close>: nothing of \<open>post\<close> is constructed or invoked. This holds for the
  loop of the document entry point and for the loop of the image entry point.
\<close>

theorem fallback_early_exit:
  "((\<forall>n \<in> set pre. \<not> clears thr (fst (try_engine_pdf env path images cfg n))) \<and>
    fst (try_engine_pdf env path images cfg name) = Inr res \<and> thr \<le> mean_confidence res \<longrightarrow>
      fst (pdf_fallback env path images cfg thr (pre @ name # post) l0) =
        Inr \<lparr>input_path = Some path, used_ocr = True, engine = Some name,
              ocr_confidence = Some (mean_confidence res), out_text = res_text res,
              meta = res_meta res\<rparr> \<and>
      snd (pdf_fallback env path images cfg thr (pre @ name # post) l0) =
        concat (map (\<lambda>n. snd (try_engine_pdf env path images cfg n)) (pre @ [name])) \<and>
      built (snd (pdf_fallback env path images cfg thr (pre @ name # post) l0)) = pre @ [name]) \<and>
   ((\<forall>n \<in> set pre. \<not> clears thr (fst (try_engine_images env images cfg n))) \<and>
    fst (try_engine_images env images cfg name) = Inr res' \<and> thr \<le> mean_confidence res' \<longrightarrow>
      fst (images_fallback env images cfg thr (pre @ name # post) l0) =
        Inr \<lparr>input_path = None, used_ocr = True, engine = Some name,
              ocr_confidence = Some (mean_confidence res'), out_text = res_text res',
              meta = res_meta res'\<rparr> \<and>
      snd (images_fallback env images cfg thr (pre @ name # post) l0) =
        concat (map (\<lambda>n. snd (try_engine_images env images cfg n)) (pre @ [name])) \<and>
      built (snd (images_fallback env images cfg thr (pre @ name # post) l0)) = pre @ [name])"
proof (intro conjI impI)
  assume h: "(\<forall>n \<in> set pre. \<not> clears thr (fst (try_engine_pdf env path images cfg n))) \<and>
    fst (try_engine_pdf env path images cfg name) = Inr res \<and> thr \<le> mean_confidence res"
  then have skip: "\<forall>n \<in> set pre. \<not> clears thr (fst (try_engine_pdf env path images cfg n))"
    by simp
  obtain ev where t: "try_engine_pdf env path images cfg name = (Inr res, ev)"
    using h by (cases "try_engine_pdf env path images cfg name") simp
  have step: "pdf_fallback env path images cfg thr (name # post) l1 =
      (Inr \<lparr>input_path = Some path, used_ocr = True, engine = Some name,
              ocr_confidence = Some (mean_confidence res), out_text = res_text res,
              meta = res_meta res\<rparr>, ev)" for l1
    using t h by simp
  show "fst (pdf_fallback env path images cfg thr (pre @ name # post) l0) =
        Inr \<lparr>input_path = Some path, used_ocr = True, engine = Some name,
              ocr_confidence = Some (mean_confidence res), out_text = res_text res,
              meta = res_meta res\<rparr>"
    by (simp add: pdf_fallback_skip [OF skip] step del: pdf_fallback.simps)
  show e: "snd (pdf_fallback env path images cfg thr (pre @ name # post) l0) =
        concat (map (\<lambda>n. snd (try_engine_pdf env path images cfg n)) (pre @ [name]))"
    by (simp add: pdf_fallback_skip [OF skip] step t del: pdf_fallback.simps)
  show "built (snd (pdf_fallback env path images cfg thr (pre @ name # post) l0)) = pre @ [name]"
    unfolding e by (rule built_concat_pdf)
next
  assume h: "(\<forall>n \<in> set pre. \<not> clears thr (fst (try_engine_images env images cfg n))) \<and>
    fst (try_engine_images env images cfg name) = Inr res' \<and> thr \<le> mean_confidence res'"
  then have skip: "\<forall>n \<in> set pre. \<not> clears thr (fst (try_engine_images env images cfg n))"
    by simp
  obtain ev where t: "try_engine_images env images cfg name = (Inr res', ev)"
    using h by (cases "try_engine_images env images cfg name") simp
  have step: "images_fallback env images cfg thr (name # post) l1 =
      (Inr \<lparr>input_path = None, used_ocr = True, engine = Some name,
              ocr_confidence = Some (mean_confidence res'), out_text = res_text res',
              meta = res_meta res'\<rparr>, ev)" for l1
    using t h by simp
  show "fst (images_fallback env images cfg thr (pre @ name # post) l0) =
        Inr \<lparr>input_path = None, used_ocr = True, engine = Some name,
              ocr_confidence = Some (mean_confidence res'), out_text = res_text res',
              meta = res_meta res'\<rparr>"
    by (simp add: images_fallback_skip [OF skip] step del: images_fallback.simps)
  show e: "snd (images_fallback env images cfg thr (pre @ name # post) l0) =
        concat (map (\<lambda>n. snd (try_engine_images env images cfg n)) (pre @ [name]))"
    by (simp add: images_fallback_skip [OF skip] step t del: images_fallback.simps)
  show "built (snd (images_fallback env images cfg thr (pre @ name # post) l0)) = pre @ [name]"
    unfolding e by (rule built_concat_images)
qed


lemmas stub_defs = stub_env_def stub_adapter_def stub_result_def image_only_def xyz_registry_def
  try_engine_pdf_def try_engine_images_def build_adapter_def ensure_for_engine_def lit_def lower_def
  clears_def Let_def

theorem fallback_early_exit_witness:
  "fst (pdf_fallback (stub_env xyz_registry (Inl IndexError)) (lit ''a.pdf'') [0] [] 0.6
          [lit ''paddle'', lit ''easyocr'', lit ''tesseract''] None) =
     Inr \<lparr>input_path = Some (lit ''a.pdf''), used_ocr = True, engine = Some (lit ''easyocr''),
          ocr_confidence = Some 0.9, out_text = lit ''y'', meta = []\<rparr> \<and>
   built (snd (pdf_fallback (stub_env xyz_registry (Inl IndexError)) (lit ''a.pdf'') [0] [] 0.6
          [lit ''paddle'', lit ''easyocr'', lit ''tesseract''] None)) =
     [lit ''paddle'', lit ''easyocr''] \<and>
   fst (images_fallback (stub_env xyz_registry (Inl IndexError)) [0] [] 0.6
          [lit ''paddle'', lit ''easyocr'', lit ''tesseract''] None) =
     Inr \<lparr>input_path = None, used_ocr = True, engine = Some (lit ''easyocr''),
          ocr_confidence = Some 0.9, out_text = lit ''y'', meta = []\<rparr> \<and>
   built (snd (images_fallback (stub_env xyz_registry (Inl IndexError)) [0] [] 0.6
          [lit ''paddle'', lit ''easyocr'', lit ''tesseract''] None)) =
     [lit ''paddle'', lit ''easyocr'']"
  using fallback_early_exit [of "[lit ''paddle'']" "0.6" "stub_env xyz_registry (Inl IndexError)"
      "lit ''a.pdf''" "[0]" "[]" "lit ''easyocr''" "stub_result (lit ''y'') 0.9 (lit ''easyocr'')"
      "[lit ''tesseract'']" None "stub_result (lit ''y'') 0.9 (lit ''easyocr'')"]
  by (simp add: stub_defs del: pdf_fallback.simps images_fallback.simps)

lemma last_result_all_fail:
  "\<forall>n \<in> set order. isl (f n) \<Longrightarrow> last_result f order l0 = l0"
  by (induction order) (auto simp: last_result_Cons isl_def)

lemma pdf_fallback_exhaust:
  assumes "\<forall>n \<in> set order. \<not> clears thr (fst (try_engine_pdf env path images cfg n))"
  shows "pdf_fallback env path images cfg thr order l0 =
     then_events (concat (map (\<lambda>n. snd (try_engine_pdf env path images cfg n)) order))
       (pdf_fallback env path images cfg thr []
          (last_result (\<lambda>n. fst (try_engine_pdf env path images cfg n)) order l0))"
  using pdf_fallback_skip [OF assms, of "[]" l0] by simp

lemma images_fallback_exhaust:
  assumes "\<forall>n \<in> set order. \<not> clears thr (fst (try_engine_images env images cfg n))"
  shows "images_fallback env images cfg thr order l0 =
     then_events (concat (map (\<lambda>n. snd (try_engine_images env images cfg n)) order))
       (images_fallback env images cfg thr []
          (last_result (\<lambda>n. fst (try_engine_images env images cfg n)) order l0))"
  using images_fallback_skip [OF assms, of "[]" l0] by simp

lemma isl_not_clears: "isl r \<Longrightarrow> \<not> clears thr r"
  by (auto simp: clears_def isl_def)

text \<open>
  C2. The fallback executor degrades gracefully. An attempt that raises, whether in the
  construction of the adapter or in its call, leaves the loop's outcome to the remaining
  engines, with the last result unchanged. When no engine of the order clears the threshold,
  every engine of the order is constructed, and the outcome is the last result an attempt
  returned, as a success below the threshold (with the engine name that result carries), or,
  when no attempt returned a result, the failure \<^verbatim>\<open>RuntimeError("No OCR engine succeeded ...")\<close>,
  which is the only failure of the loop. In particular the call fails when every attempt raises.
\<close>

theorem fallback_degrades:
  "(fst (try_engine_pdf env path images cfg name) = Inl e \<longrightarrow>
      fst (pdf_fallback env path images cfg thr (name # rest) l0) =
      fst (pdf_fallback env path images cfg thr rest l0)) \<and>
   (fst (try_engine_images env images cfg name) = Inl e \<longrightarrow>
      fst (images_fallback env images cfg thr (name # rest) l0) =
      fst (images_fallback env images cfg thr rest l0)) \<and>
   ((\<forall>n \<in> set order. \<not> clears thr (fst (try_engine_pdf env path images cfg n))) \<longrightarrow>
      fst (pdf_fallback env path images cfg thr order None) =
        (case last_result (\<lambda>n. fst (try_engine_pdf env path images cfg n)) order None of
           Some l \<Rightarrow>
             Inr \<lparr>input_path = Some path, used_ocr = True, engine = Some (res_engine l),
                  ocr_confidence = Some (mean_confidence l), out_text = res_text l,
                  meta = res_meta l\<rparr>
         | None \<Rightarrow> Inl (RuntimeError (lit ''No OCR engine succeeded for given PDF''))) \<and>
      built (snd (pdf_fallback env path images cfg thr order None)) = order) \<and>
   ((\<forall>n \<in> set order. \<not> clears thr (fst (try_engine_images env images cfg n))) \<longrightarrow>
      fst (images_fallback env images cfg thr order None) =
        (case last_result (\<lambda>n. fst (try_engine_images env images cfg n)) order None of
           Some l \<Rightarrow>
             Inr \<lparr>input_path = None, used_ocr = True, engine = Some (res_engine l),
                  ocr_confidence = Some (mean_confidence l), out_text = res_text l,
                  meta = res_meta l\<rparr>
         | None \<Rightarrow> Inl (RuntimeError (lit ''No OCR engine succeeded for images''))) \<and>
      built (snd (images_fallback env images cfg thr order None)) = order) \<and>
   ((\<forall>n \<in> set order. isl (fst (try_engine_pdf env path images cfg n))) \<longrightarrow>
      fst (pdf_fallback env path images cfg thr order None) =
        Inl (RuntimeError (lit ''No OCR engine succeeded for given PDF''))) \<and>
   ((\<forall>n \<in> set order. isl (fst (try_engine_images env images cfg n))) \<longrightarrow>
      fst (images_fallback env images cfg thr order None) =
        Inl (RuntimeError (lit ''No OCR engine succeeded for images'')))"
proof (intro conjI impI)
  assume "fst (try_engine_pdf env path images cfg name) = Inl e"
  then show "fst (pdf_fallback env path images cfg thr (name # rest) l0) =
      fst (pdf_fallback env path images cfg thr rest l0)"
    by (cases "try_engine_pdf env path images cfg name") simp
next
  assume "fst (try_engine_images env images cfg name) = Inl e"
  then show "fst (images_fallback env images cfg thr (name # rest) l0) =
      fst (images_fallback env images cfg thr rest l0)"
    by (cases "try_engine_images env images cfg name") simp
next
  assume h: "\<forall>n \<in> set order. \<not> clears thr (fst (try_engine_pdf env path images cfg n))"
  show "fst (pdf_fallback env path images cfg thr order None) =
        (case last_result (\<lambda>n. fst (try_engine_pdf env path images cfg n)) order None of
           Some l \<Rightarrow>
             Inr \<lparr>input_path = Some path, used_ocr = True, engine = Some (res_engine l),
                  ocr_confidence = Some (mean_confidence l), out_text = res_text l,
                  meta = res_meta l\<rparr>
         | None \<Rightarrow> Inl (RuntimeError (lit ''No OCR engine succeeded for given PDF'')))"
    by (simp add: pdf_fallback_exhaust [OF h] split: option.split)
  show "built (snd (pdf_fallback env path images cfg thr order None)) = order"
    by (simp add: pdf_fallback_exhaust [OF h] split: option.split)
next
  assume h: "\<forall>n \<in> set order. \<not> clears thr (fst (try_engine_images env images cfg n))"
  show "fst (images_fallback env images cfg thr order None) =
        (case last_result (\<lambda>n. fst (try_engine_images env images cfg n)) order None of
           Some l \<Rightarrow>
             Inr \<lparr>input_path = None, used_ocr = True, engine = Some (res_engine l),
                  ocr_confidence = Some (mean_confidence l), out_text = res_text l,
                  meta = res_meta l\<rparr>
         | None \<Rightarrow> Inl (RuntimeError (lit ''No OCR engine succeeded for images'')))"
    by (simp add: images_fallback_exhaust [OF h] split: option.split)
  show "built (snd (images_fallback env images cfg thr order None)) = order"
    by (simp add: images_fallback_exhaust [OF h] split: option.split)
next
  assume h: "\<forall>n \<in> set order. isl (fst (try_engine_pdf env path images cfg n))"
  then have c: "\<forall>n \<in> set order. \<not> clears thr (fst (try_engine_pdf env path images cfg n))"
    by (simp add: isl_not_clears)
  show "fst (pdf_fallback env path images cfg thr order None) =
        Inl (RuntimeError (lit ''No OCR engine succeeded for given PDF''))"
    by (simp add: pdf_fallback_exhaust [OF c] last_result_all_fail [OF h])
next
  assume h: "\<forall>n \<in> set order. isl (fst (try_engine_images env images cfg n))"
  then have c: "\<forall>n \<in> set order. \<not> clears thr (fst (try_engine_images env images cfg n))"
    by (simp add: isl_not_clears)
  show "fst (images_fallback env images cfg thr order None) =
        Inl (RuntimeError (lit ''No OCR engine succeeded for images''))"
    by (simp add: images_fallback_exhaust [OF c] last_result_all_fail [OF h])
qed

theorem fallback_degrades_witness:
  "fst (pdf_fallback (stub_env low_registry (Inl IndexError)) (lit ''a.pdf'') [0] [] 0.6
          [lit ''paddle'', lit ''easyocr'', lit ''tesseract''] None) =
     Inr \<lparr>input_path = Some (lit ''a.pdf''), used_ocr = True, engine = Some (lit ''easyocr''),
          ocr_confidence = Some 0.3, out_text = lit ''y'', meta = []\<rparr> \<and>
   built (snd (pdf_fallback (stub_env low_registry (Inl IndexError)) (lit ''a.pdf'') [0] [] 0.6
          [lit ''paddle'', lit ''easyocr'', lit ''tesseract''] None)) =
     [lit ''paddle'', lit ''easyocr'', lit ''tesseract''] \<and>
   fst (images_fallback (stub_env low_registry (Inl IndexError)) [0] [] 0.6
          [lit ''paddle'', lit ''easyocr'', lit ''tesseract''] None) =
     Inr \<lparr>input_path = None, used_ocr = True, engine = Some (lit ''easyocr''),
          ocr_confidence = Some 0.3, out_text = lit ''y'', meta = []\<rparr> \<and>
   fst (pdf_fallback (stub_env no_registry (Inl IndexError)) (lit ''a.pdf'') [0] [] 0.6
          [lit ''paddle'', lit ''easyocr'', lit ''tesseract''] None) =
     Inl (RuntimeError (lit ''No OCR engine succeeded for given PDF'')) \<and>
   fst (images_fallback (stub_env no_registry (Inl IndexError)) [0] [] 0.6
          [lit ''paddle'', lit ''easyocr'', lit ''tesseract''] None) =
     Inl (RuntimeError (lit ''No OCR engine succeeded for images''))"
  using fallback_degrades [of "stub_env low_registry (Inl IndexError)" "lit ''a.pdf''" "[0]" "[]"
      "lit ''tesseract''" "ImportError []" "0.6" "[]" None
      "[lit ''paddle'', lit ''easyocr'', lit ''tesseract'']"]
    fallback_degrades [of "stub_env no_registry (Inl IndexError)" "lit ''a.pdf''" "[0]" "[]"
      "lit ''tesseract''" "ImportError []" "0.6" "[]" None
      "[lit ''paddle'', lit ''easyocr'', lit ''tesseract'']"]
  by (simp add: stub_defs low_registry_def no_registry_def last_result_def successes_def
      del: pdf_fallback.simps images_fallback.simps)

subsection \<open>The engine candidate order\<close>

lemma default_names_distinct:
  "distinct [lit ''paddle'', lit ''easyocr'', lit ''tesseract'']"
  by (simp add: lit_def)

lemma append_defaults_filter:
  "append_defaults order =
     order @ filter (\<lambda>n. n \<notin> set order) [lit ''paddle'', lit ''easyocr'', lit ''tesseract'']"
  by (simp add: append_defaults_def lit_def)

lemma distinct_append_defaults: "distinct order \<Longrightarrow> distinct (append_defaults order)"
  using default_names_distinct by (auto simp: append_defaults_filter)

lemma remdups_before:
  "remdups (as @ bs) = filter (\<lambda>a. a \<notin> set bs) (remdups as) @ remdups bs"
  by (induction as) auto

lemma dedup_first_append:
  "distinct xs \<Longrightarrow> distinct ys \<Longrightarrow> dedup_first (xs @ ys) = xs @ filter (\<lambda>y. y \<notin> set xs) ys"
proof -
  assume dx: "distinct xs" and dy: "distinct ys"
  have "remdups (rev ys @ rev xs) =
      filter (\<lambda>y. y \<notin> set (rev xs)) (remdups (rev ys)) @ remdups (rev xs)"
    by (rule remdups_before)
  also have "\<dots> = filter (\<lambda>y. y \<notin> set xs) (rev ys) @ rev xs"
    using dx dy by (simp add: distinct_remdups_id)
  finally show ?thesis
    by (simp add: dedup_first_def rev_filter)
qed

lemma dedup_first_twice: "dedup_first (x # x # xs) = dedup_first (x # xs)"
proof -
  have "remdups ((rev xs @ [x]) @ [x]) = remdups (rev xs @ [x])"
    by (simp add: remdups_before [of "rev xs @ [x]" "[x]"] remdups_before [of "rev xs" "[x]"]
        del: append_assoc)
  then show ?thesis by (simp add: dedup_first_def)
qed

text \<open>
  A fallback order that repeats an identifier is executed with the repetition: the engine is
  constructed twice. And an engine that the caller also lists later in the fallback order is
  not moved to the front, which prepending it and removing later duplicates would do.
\<close>

theorem candidate_order_counterexample:
  "pdf_order (lit ''tesseract'') (Some [lit ''tesseract'', lit ''tesseract'']) =
     [lit ''tesseract'', lit ''tesseract'', lit ''paddle'', lit ''easyocr''] \<and>
   \<not> distinct (pdf_order (lit ''tesseract'') (Some [lit ''tesseract'', lit ''tesseract''])) \<and>
   pdf_order (lit ''paddle'') (Some [lit ''tesseract'', lit ''paddle'']) =
     [lit ''tesseract'', lit ''paddle'', lit ''easyocr''] \<and>
   dedup_first (lit ''paddle'' # [lit ''tesseract'', lit ''paddle'']
                  @ [lit ''paddle'', lit ''easyocr'', lit ''tesseract'']) =
     [lit ''paddle'', lit ''tesseract'', lit ''easyocr''] \<and>
   built (snd (recognize_pdf (stub_env no_registry (Inl IndexError)) (lit ''a.pdf'')
                 (lit ''tesseract'') True None 300 None None 0.6
                 (Some [lit ''tesseract'', lit ''tesseract'']))) =
     [lit ''tesseract'', lit ''tesseract'', lit ''paddle'', lit ''easyocr'']"
  by (simp add: pdf_order_def append_defaults_def dedup_first_def recognize_pdf_def
      cfg_or_empty_def ensure_common_def vector_text_step_def load_images_from_pdf_def
      choose_engine_def no_registry_def stub_defs)

text \<open>
  C4 (as amended). The executed order is the caller's fallback order (the engine alone when
  none is given or it is empty), with the explicit or auto-selected engine put in front only
  when it does not occur in it, followed by those of \<^verbatim>\<open>paddle\<close>, \<^verbatim>\<open>easyocr\<close>,
  \<^verbatim>\<open>tesseract\<close> that do not occur yet. It has no repeated identifier whenever the
  caller's fallback order has none; and when moreover the engine is absent from the fallback
  order or is its first element, and always when no fallback order is given and for the image
  entry point, it is the engine, the fallback order and the defaults with duplicates removed
  keeping the first occurrence.
\<close>

theorem candidate_order_shape:
  "pdf_order engine_id fallback_order =
     (let given = (case fallback_order of
                     Some fo \<Rightarrow> if fo \<noteq> [] then fo else [engine_id]
                   | None \<Rightarrow> [engine_id]);
          first = (if engine_id \<in> set given then given else engine_id # given)
      in first @ filter (\<lambda>n. n \<notin> set first) [lit ''paddle'', lit ''easyocr'', lit ''tesseract'']) \<and>
   (distinct (case fallback_order of Some fo \<Rightarrow> fo | None \<Rightarrow> []) \<longrightarrow>
      distinct (pdf_order engine_id fallback_order)) \<and>
   (distinct fo \<and> (engine_id \<notin> set fo \<or> (fo \<noteq> [] \<and> hd fo = engine_id)) \<longrightarrow>
      pdf_order engine_id (Some fo) =
        dedup_first (engine_id # fo @ [lit ''paddle'', lit ''easyocr'', lit ''tesseract''])) \<and>
   pdf_order engine_id None =
     dedup_first (engine_id # [lit ''paddle'', lit ''easyocr'', lit ''tesseract'']) \<and>
   images_order engine_id =
     dedup_first (engine_id # [lit ''paddle'', lit ''easyocr'', lit ''tesseract'']) \<and>
   distinct (images_order engine_id)"
proof (intro conjI impI)
  show "pdf_order engine_id fallback_order =
     (let given = (case fallback_order of
                     Some fo \<Rightarrow> if fo \<noteq> [] then fo else [engine_id]
                   | None \<Rightarrow> [engine_id]);
          first = (if engine_id \<in> set given then given else engine_id # given)
      in first @ filter (\<lambda>n. n \<notin> set first) [lit ''paddle'', lit ''easyocr'', lit ''tesseract''])"
    by (simp add: pdf_order_def Let_def append_defaults_filter)
next
  assume "distinct (case fallback_order of Some fo \<Rightarrow> fo | None \<Rightarrow> [])"
  then show "distinct (pdf_order engine_id fallback_order)"
    by (auto simp: pdf_order_def Let_def intro!: distinct_append_defaults split: option.splits)
next
  assume h: "distinct fo \<and> (engine_id \<notin> set fo \<or> (fo \<noteq> [] \<and> hd fo = engine_id))"
  show "pdf_order engine_id (Some fo) =
        dedup_first (engine_id # fo @ [lit ''paddle'', lit ''easyocr'', lit ''tesseract''])"
  proof (cases "engine_id \<in> set fo")
    case False
    with h have d: "distinct (engine_id # fo)" by simp
    have "dedup_first ((engine_id # fo) @ [lit ''paddle'', lit ''easyocr'', lit ''tesseract'']) =
        (engine_id # fo) @ filter (\<lambda>y. y \<notin> set (engine_id # fo))
           [lit ''paddle'', lit ''easyocr'', lit ''tesseract'']"
      by (rule dedup_first_append [OF d default_names_distinct])
    moreover have "pdf_order engine_id (Some fo) =
        (engine_id # fo) @ filter (\<lambda>y. y \<notin> set (engine_id # fo))
           [lit ''paddle'', lit ''easyocr'', lit ''tesseract'']"
      using False by (cases fo) (simp_all add: pdf_order_def Let_def append_defaults_filter)
    ultimately show ?thesis by simp
  next
    case True
    with h obtain tl where fo: "fo = engine_id # tl" by (cases fo) auto
    with h have d: "distinct (engine_id # tl)" by simp
    have p: "pdf_order engine_id (Some fo) =
        (engine_id # tl) @ filter (\<lambda>y. y \<notin> set (engine_id # tl))
           [lit ''paddle'', lit ''easyocr'', lit ''tesseract'']"
      using fo by (simp add: pdf_order_def Let_def append_defaults_filter)
    have "dedup_first (engine_id # fo @ [lit ''paddle'', lit ''easyocr'', lit ''tesseract'']) =
        dedup_first ((engine_id # tl) @ [lit ''paddle'', lit ''easyocr'', lit ''tesseract''])"
      unfolding fo append_Cons by (rule dedup_first_twice)
    also have "\<dots> = (engine_id # tl) @ filter (\<lambda>y. y \<notin> set (engine_id # tl))
           [lit ''paddle'', lit ''easyocr'', lit ''tesseract'']"
      by (rule dedup_first_append [OF d default_names_distinct])
    finally show ?thesis using p by simp
  qed
next
  have d: "distinct [engine_id]" by simp
  have e: "dedup_first ([engine_id] @ [lit ''paddle'', lit ''easyocr'', lit ''tesseract'']) =
      [engine_id] @ filter (\<lambda>y. y \<notin> set [engine_id])
         [lit ''paddle'', lit ''easyocr'', lit ''tesseract'']"
    by (rule dedup_first_append [OF d default_names_distinct])
  show "pdf_order engine_id None =
     dedup_first (engine_id # [lit ''paddle'', lit ''easyocr'', lit ''tesseract''])"
    using e by (simp add: pdf_order_def Let_def append_defaults_filter)
  show "images_order engine_id =
     dedup_first (engine_id # [lit ''paddle'', lit ''easyocr'', lit ''tesseract''])"
    using e by (simp add: images_order_def append_defaults_filter)
  show "distinct (images_order engine_id)"
    unfolding images_order_def by (rule distinct_append_defaults) simp
qed

theorem candidate_order_shape_witness:
  "distinct (pdf_order (lit ''doctr'') (Some [lit ''tesseract'', lit ''paddle''])) \<and>
   pdf_order (lit ''doctr'') (Some [lit ''tesseract'', lit ''paddle'']) =
     [lit ''doctr'', lit ''tesseract'', lit ''paddle'', lit ''easyocr''] \<and>
   dedup_first (lit ''doctr'' # [lit ''tesseract'', lit ''paddle'']
                  @ [lit ''paddle'', lit ''easyocr'', lit ''tesseract'']) =
     [lit ''doctr'', lit ''tesseract'', lit ''paddle'', lit ''easyocr'']"
  using candidate_order_shape [of "lit ''doctr''" "Some [lit ''tesseract'', lit ''paddle'']"
      "[lit ''tesseract'', lit ''paddle'']"]
  by (simp add: lit_def dedup_first_def)

subsection \<open>The vector-text gate and the bypass\<close>

lemma pdf_fallback_result:
  "fst (pdf_fallback env path images cfg thr order l0) = Inr r \<Longrightarrow>
   used_ocr r \<and> input_path r = Some path \<and>
   (\<exists>n c. engine r = Some n \<and> ocr_confidence r = Some c)"
proof (induction order arbitrary: l0)
  case Nil
  then show ?case by (cases l0) auto
next
  case (Cons a order)
  obtain x ev where t: "try_engine_pdf env path images cfg a = (x, ev)"
    by (cases "try_engine_pdf env path images cfg a")
  show ?case
  proof (cases x)
    case (Inl e)
    with t Cons.prems have "fst (pdf_fallback env path images cfg thr order l0) = Inr r"
      by simp
    then show ?thesis by (rule Cons.IH)
  next
    case (Inr res)
    show ?thesis
    proof (cases "thr \<le> mean_confidence res")
      case True
      with t Inr Cons.prems show ?thesis by auto
    next
      case False
      with t Inr Cons.prems
      have "fst (pdf_fallback env path images cfg thr order (Some res)) = Inr r"
        by simp
      then show ?thesis by (rule Cons.IH)
    qed
  qed
qed

lemma images_fallback_result:
  "fst (images_fallback env images cfg thr order l0) = Inr r \<Longrightarrow>
   used_ocr r \<and> input_path r = None \<and>
   (\<exists>n c. engine r = Some n \<and> ocr_confidence r = Some c)"
proof (induction order arbitrary: l0)
  case Nil
  then show ?case by (cases l0) auto
next
  case (Cons a order)
  obtain x ev where t: "try_engine_images env images cfg a = (x, ev)"
    by (cases "try_engine_images env images cfg a")
  show ?case
  proof (cases x)
    case (Inl e)
    with t Cons.prems have "fst (images_fallback env images cfg thr order l0) = Inr r"
      by simp
    then show ?thesis by (rule Cons.IH)
  next
    case (Inr res)
    show ?thesis
    proof (cases "thr \<le> mean_confidence res")
      case True
      with t Inr Cons.prems show ?thesis by auto
    next
      case False
      with t Inr Cons.prems
      have "fst (images_fallback env images cfg thr order (Some res)) = Inr r"
        by simp
      then show ?thesis by (rule Cons.IH)
    qed
  qed
qed

text \<open>What \<^verbatim>\<open>recognize_pdf\<close> does once the gate has decided.\<close>

lemma recognize_pdf_sufficient:
  assumes "fst (vector_text_step env path prefer_ocr) \<noteq> []"
    and "is_sufficient_vector_text (fst (vector_text_step env path prefer_ocr)) 64"
  shows "recognize_pdf env path engine_id prefer_ocr ocr_cfg dpi first_page last_page thr fo =
     (Inr \<lparr>input_path = Some path, used_ocr = False, engine = None, ocr_confidence = None,
           out_text = fst (vector_text_step env path prefer_ocr),
           meta = [(lit ''vector'', PBool True)]\<rparr>,
      ensure_common env @ snd (vector_text_step env path prefer_ocr))"
  using assms by (simp add: recognize_pdf_def Let_def split_beta)

lemma recognize_pdf_insufficient:
  assumes "\<not> (fst (vector_text_step env path prefer_ocr) \<noteq> [] \<and>
              is_sufficient_vector_text (fst (vector_text_step env path prefer_ocr)) 64)"
  shows "recognize_pdf env path engine_id prefer_ocr ocr_cfg dpi first_page last_page thr fo =
     (case load_images_from_pdf env path dpi first_page last_page of
        (Inl e, ev2) \<Rightarrow>
          (Inl e, ensure_common env @ snd (vector_text_step env path prefer_ocr) @ ev2)
      | (Inr images, ev2) \<Rightarrow>
          (case choose_engine env images engine_id (cfg_or_empty ocr_cfg) of
             (Inl e, ev3) \<Rightarrow>
               (Inl e, ensure_common env @ snd (vector_text_step env path prefer_ocr) @ ev2 @ ev3)
           | (Inr chosen, ev3) \<Rightarrow>
               then_events
                 (ensure_common env @ snd (vector_text_step env path prefer_ocr) @ ev2 @ ev3)
                 (pdf_fallback env path images (cfg_or_empty ocr_cfg) thr
                    (pdf_order chosen fo) None)))"
  using assms by (auto simp: recognize_pdf_def Let_def split_beta)

lemma recognize_pdf_insufficient_used_ocr:
  assumes g: "\<not> (fst (vector_text_step env path prefer_ocr) \<noteq> [] \<and>
              is_sufficient_vector_text (fst (vector_text_step env path prefer_ocr)) 64)"
    and r: "fst (recognize_pdf env path engine_id prefer_ocr ocr_cfg dpi first_page last_page thr fo)
              = Inr r"
  shows "used_ocr r \<and> (\<exists>n c. engine r = Some n \<and> ocr_confidence r = Some c)"
proof -
  obtain x ev2 where l: "load_images_from_pdf env path dpi first_page last_page = (x, ev2)"
    by (cases "load_images_from_pdf env path dpi first_page last_page")
  show ?thesis
  proof (cases x)
    case (Inl e)
    with r l show ?thesis by (simp add: recognize_pdf_insufficient [OF g])
  next
    case (Inr images)
    obtain y ev3 where c: "choose_engine env images engine_id (cfg_or_empty ocr_cfg) = (y, ev3)"
      by (cases "choose_engine env images engine_id (cfg_or_empty ocr_cfg)")
    show ?thesis
    proof (cases y)
      case (Inl e)
      with r l c Inr show ?thesis by (simp add: recognize_pdf_insufficient [OF g])
    next
      case chosen: (Inr chosen)
      with r l c Inr
      have "fst (pdf_fallback env path images (cfg_or_empty ocr_cfg) thr
                   (pdf_order chosen fo) None) = Inr r"
        by (simp add: recognize_pdf_insufficient [OF g])
      then show ?thesis using pdf_fallback_result by blast
    qed
  qed
qed

lemma no_extract_try_pdf [simp]:
  "ExtractText p \<notin> set (snd (try_engine_pdf env path images cfg n))"
  by (simp add: try_engine_pdf_def ensure_for_engine_def Let_def split: sum.split)

lemma no_extract_pdf_fallback [simp]:
  "ExtractText p \<notin> set (snd (pdf_fallback env path images cfg thr order l0))"
proof (induction order arbitrary: l0)
  case Nil
  then show ?case by (cases l0) simp_all
next
  case (Cons a order)
  obtain x ev where t: "try_engine_pdf env path images cfg a = (x, ev)"
    by (cases "try_engine_pdf env path images cfg a")
  have ev: "ExtractText p \<notin> set ev"
    using no_extract_try_pdf [of p env path images cfg a] t by simp
  show ?case
    using t ev Cons.IH by (cases x) simp_all
qed

lemma no_extract_pilot [simp]:
  "ExtractText p \<notin> set (snd (pilot_score env pilot cfg n))"
  by (simp add: pilot_score_def Let_def split: sum.split)

lemma no_extract_auto_loop [simp]:
  "ExtractText p \<notin> set (snd (auto_select_loop env pilot cfg cs bn bs))"
proof (induction cs arbitrary: bn bs)
  case Nil
  then show ?case by simp
next
  case (Cons a cs)
  obtain x ev where t: "pilot_score env pilot cfg a = (x, ev)"
    by (cases "pilot_score env pilot cfg a")
  have ev: "ExtractText p \<notin> set ev"
    using no_extract_pilot [of p env pilot cfg a] t by simp
  show ?case
    using t ev Cons.IH by (cases x) simp_all
qed

lemma auto_select_engine_events:
  "snd (auto_select_engine env images cs c) =
     (case pilot_crop env images 512 of
        Inl e \<Rightarrow> []
      | Inr pilot \<Rightarrow> snd (auto_select_loop env pilot c cs None (- 1)))"
  by (simp add: auto_select_engine_def split: prod.split option.split sum.split)

lemma no_extract_choose [simp]:
  "ExtractText p \<notin> set (snd (choose_engine env images engine_id cfg))"
proof -
  have "ExtractText p \<notin> set (snd (auto_select_engine env images cs c))" for cs c
    by (simp add: auto_select_engine_events split: sum.split)
  then show ?thesis by (simp add: choose_engine_def)
qed

lemma no_extract_load [simp]:
  "ExtractText p \<notin> set (snd (load_images_from_pdf env path dpi first_page last_page))"
  by (simp add: load_images_from_pdf_def)

lemma no_extract_prefer_ocr:
  "ExtractText p \<notin> set (snd (recognize_pdf env path engine_id True ocr_cfg dpi first_page
                               last_page thr fo))"
proof -
  have v: "vector_text_step env path True = ([], [])"
    by (simp add: vector_text_step_def)
  have c: "ExtractText p \<notin> set (ensure_common env)"
    by (simp add: ensure_common_def)
  obtain x ev2 where l: "load_images_from_pdf env path dpi first_page last_page = (x, ev2)"
    by (cases "load_images_from_pdf env path dpi first_page last_page")
  have ev2: "ExtractText p \<notin> set ev2"
    using no_extract_load [of p env path dpi first_page last_page] l by simp
  show ?thesis
  proof (cases x)
    case (Inl e)
    with l c ev2 show ?thesis by (simp add: recognize_pdf_insufficient v)
  next
    case (Inr images)
    obtain y ev3 where ch: "choose_engine env images engine_id (cfg_or_empty ocr_cfg) = (y, ev3)"
      by (cases "choose_engine env images engine_id (cfg_or_empty ocr_cfg)")
    have ev3: "ExtractText p \<notin> set ev3"
      using no_extract_choose [of p env images engine_id "cfg_or_empty ocr_cfg"] ch by simp
    from l c ev2 Inr ch ev3 show ?thesis
      by (cases y) (simp_all add: recognize_pdf_insufficient v)
  qed
qed

text \<open>
  C6. The vector-text bypass, end to end: when pdfminer is there, \<^verbatim>\<open>prefer_ocr\<close> is false
  and the extractor returns a text \<open>t\<close> that is sufficient (at least 64 characters once
  trimmed), the document entry point returns \<open>t\<close> with \<^verbatim>\<open>used_ocr\<close> false and no
  engine and no confidence, and all it has done is the dependency check of autodeps and the
  call of the extractor: the rasterizer is not invoked and no engine is constructed or run.
\<close>

theorem vector_text_bypass:
  "has_pdfminer env \<and> pdfminer_extract_text env path = Inr t \<and> is_sufficient_vector_text t 64 \<longrightarrow>
     recognize_pdf env path engine_id False ocr_cfg dpi first_page last_page thr fo =
       (Inr \<lparr>input_path = Some path, used_ocr = False, engine = None, ocr_confidence = None,
             out_text = t, meta = [(lit ''vector'', PBool True)]\<rparr>,
        ensure_common env @ [ExtractText path]) \<and>
     built (snd (recognize_pdf env path engine_id False ocr_cfg dpi first_page last_page thr fo))
       = []"
proof (intro impI)
  assume h: "has_pdfminer env \<and> pdfminer_extract_text env path = Inr t \<and>
    is_sufficient_vector_text t 64"
  then have v: "vector_text_step env path False = (t, [ExtractText path])"
    by (simp add: vector_text_step_def)
  from h have "t \<noteq> []" by (auto simp: is_sufficient_vector_text_def)
  with h v have e: "recognize_pdf env path engine_id False ocr_cfg dpi first_page last_page thr fo =
       (Inr \<lparr>input_path = Some path, used_ocr = False, engine = None, ocr_confidence = None,
             out_text = t, meta = [(lit ''vector'', PBool True)]\<rparr>,
        ensure_common env @ [ExtractText path])"
    using recognize_pdf_sufficient [of env path False engine_id ocr_cfg dpi first_page last_page thr fo]
    by simp
  show "recognize_pdf env path engine_id False ocr_cfg dpi first_page last_page thr fo =
       (Inr \<lparr>input_path = Some path, used_ocr = False, engine = None, ocr_confidence = None,
             out_text = t, meta = [(lit ''vector'', PBool True)]\<rparr>,
        ensure_common env @ [ExtractText path]) \<and>
     built (snd (recognize_pdf env path engine_id False ocr_cfg dpi first_page last_page thr fo))
       = []"
    by (simp add: e ensure_common_def)
qed

theorem vector_text_bypass_witness:
  "recognize_pdf (stub_env xyz_registry (Inr (replicate 500 97))) (lit ''a.pdf'') (lit ''auto'')
       False None 300 None None 0.6 None =
     (Inr \<lparr>input_path = Some (lit ''a.pdf''), used_ocr = False, engine = None,
           ocr_confidence = None, out_text = replicate 500 97,
           meta = [(lit ''vector'', PBool True)]\<rparr>,
      [ExtractText (lit ''a.pdf'')])"
  using vector_text_bypass [of "stub_env xyz_registry (Inr (replicate 500 97))" "lit ''a.pdf''"
      "replicate 500 97" "lit ''auto''" None 300 None None "0.6" None]
  by (simp add: stub_env_def is_sufficient_vector_text_def strip_def isspace_def
      ensure_common_def)

text \<open>
  C7. The sufficiency predicate of the vector-text gate: for a positive minimum length (64 in
  the pipeline), a text whose trimmed length reaches it is sufficient, and an empty text or a
  text whose trimmed length is below it is not. With \<^verbatim>\<open>prefer_ocr\<close> the gate yields no
  text and the extractor is not called anywhere in the run; and when the extractor raises the
  gate yields no text either. In both cases whatever the document entry point returns comes
  from recognition.
\<close>

theorem vector_gate_sufficiency:
  "(0 < min_len \<and> min_len \<le> int (length (strip t)) \<longrightarrow> is_sufficient_vector_text t min_len) \<and>
   (64 \<le> length (strip t) \<longrightarrow> is_sufficient_vector_text t 64) \<and>
   (t = [] \<or> int (length (strip t)) < min_len \<longrightarrow> \<not> is_sufficient_vector_text t min_len) \<and>
   vector_text_step env path True = ([], []) \<and>
   ExtractText p \<notin> set (snd (recognize_pdf env path engine_id True ocr_cfg dpi first_page
                               last_page thr fo)) \<and>
   (fst (recognize_pdf env path engine_id True ocr_cfg dpi first_page last_page thr fo) = Inr r
      \<longrightarrow> used_ocr r) \<and>
   (pdfminer_extract_text env path = Inl e \<longrightarrow>
      fst (vector_text_step env path prefer_ocr) = [] \<and>
      (fst (recognize_pdf env path engine_id prefer_ocr ocr_cfg dpi first_page last_page thr fo)
         = Inr r' \<longrightarrow> used_ocr r'))"
proof (intro conjI impI)
  assume "0 < min_len \<and> min_len \<le> int (length (strip t))"
  then show "is_sufficient_vector_text t min_len"
    by (auto simp: is_sufficient_vector_text_def strip_def)
next
  assume "64 \<le> length (strip t)"
  then show "is_sufficient_vector_text t 64"
    by (auto simp: is_sufficient_vector_text_def strip_def)
next
  assume "t = [] \<or> int (length (strip t)) < min_len"
  then show "\<not> is_sufficient_vector_text t min_len"
    by (auto simp: is_sufficient_vector_text_def)
next
  show "vector_text_step env path True = ([], [])"
    by (simp add: vector_text_step_def)
next
  show "ExtractText p \<notin> set (snd (recognize_pdf env path engine_id True ocr_cfg dpi first_page
                               last_page thr fo))"
    by (rule no_extract_prefer_ocr)
next
  assume "fst (recognize_pdf env path engine_id True ocr_cfg dpi first_page last_page thr fo)
    = Inr r"
  then show "used_ocr r"
    using recognize_pdf_insufficient_used_ocr [of env path True engine_id ocr_cfg dpi first_page
        last_page thr fo r]
    by (simp add: vector_text_step_def)
next
  assume "pdfminer_extract_text env path = Inl e"
  then show v: "fst (vector_text_step env path prefer_ocr) = []"
    by (simp add: vector_text_step_def)
  assume "fst (recognize_pdf env path engine_id prefer_ocr ocr_cfg dpi first_page last_page thr fo)
    = Inr r'"
  then show "used_ocr r'"
    using recognize_pdf_insufficient_used_ocr [of env path prefer_ocr engine_id ocr_cfg dpi
        first_page last_page thr fo r'] v
    by simp
qed

lemmas entry_defs = recognize_pdf_def recognize_images_def cfg_or_empty_def ensure_common_def
  vector_text_step_def load_images_from_pdf_def choose_engine_def pdf_order_def images_order_def
  append_defaults_def

theorem vector_gate_sufficiency_witness:
  "is_sufficient_vector_text (replicate 64 97) 64 \<and>
   \<not> is_sufficient_vector_text (lit ''  too short  '') 64 \<and>
   \<not> is_sufficient_vector_text [] 64 \<and>
   fst (recognize_pdf (stub_env xyz_registry (Inr (replicate 64 97))) (lit ''a.pdf'')
          (lit ''easyocr'') True None 300 None None 0.6 None) =
     Inr \<lparr>input_path = Some (lit ''a.pdf''), used_ocr = True, engine = Some (lit ''easyocr''),
          ocr_confidence = Some 0.9, out_text = lit ''y'', meta = []\<rparr> \<and>
   fst (recognize_pdf (stub_env xyz_registry (Inl (OtherException []))) (lit ''a.pdf'')
          (lit ''easyocr'') False None 300 None None 0.6 None) =
     Inr \<lparr>input_path = Some (lit ''a.pdf''), used_ocr = True, engine = Some (lit ''easyocr''),
          ocr_confidence = Some 0.9, out_text = lit ''y'', meta = []\<rparr>"
  using vector_gate_sufficiency [where min_len = 64 and t = "replicate 64 97"
      and env = "stub_env xyz_registry (Inr (replicate 64 97))" and path = "lit ''a.pdf''"
      and p = "lit ''a.pdf''" and engine_id = "lit ''easyocr''" and ocr_cfg = None
      and dpi = 300 and first_page = None and last_page = None and thr = "0.6" and fo = None
      and r = "\<lparr>input_path = Some (lit ''a.pdf''), used_ocr = True,
                 engine = Some (lit ''easyocr''), ocr_confidence = Some 0.9,
                 out_text = lit ''y'', meta = []\<rparr>"
      and e = "OtherException []" and prefer_ocr = True
      and r' = "\<lparr>input_path = Some (lit ''a.pdf''), used_ocr = True,
                 engine = Some (lit ''easyocr''), ocr_confidence = Some 0.9,
                 out_text = lit ''y'', meta = []\<rparr>"]
    vector_gate_sufficiency [where min_len = 64 and t = "lit ''  too short  ''"
      and env = "stub_env xyz_registry (Inl (OtherException []))" and path = "lit ''a.pdf''"
      and p = "lit ''a.pdf''" and engine_id = "lit ''easyocr''" and ocr_cfg = None
      and dpi = 300 and first_page = None and last_page = None and thr = "0.6" and fo = None
      and r = "\<lparr>input_path = Some (lit ''a.pdf''), used_ocr = True,
                 engine = Some (lit ''easyocr''), ocr_confidence = Some 0.9,
                 out_text = lit ''y'', meta = []\<rparr>"
      and e = "OtherException []" and prefer_ocr = False
      and r' = "\<lparr>input_path = Some (lit ''a.pdf''), used_ocr = True,
                 engine = Some (lit ''easyocr''), ocr_confidence = Some 0.9,
                 out_text = lit ''y'', meta = []\<rparr>"]
    vector_gate_sufficiency [where min_len = 64 and t = "[]"]
  by (simp add: entry_defs stub_defs strip_def isspace_def is_sufficient_vector_text_def)

subsection \<open>Engine auto-selection\<close>

lemma build_adapter_empty: "build_adapter env [] = Inl (ValueError (lit ''Unknown engine: ''))"
  by (simp add: build_adapter_def lower_def lit_def)

lemma pilot_score_empty: "isl (fst (pilot_score env pilot cfg []))"
  by (simp add: pilot_score_def build_adapter_empty)

lemma auto_select_loop_keep:
  "\<forall>n \<in> set cs. \<forall>t. fst (pilot_score env pilot cfg n) = Inr t \<longrightarrow> t \<le> bs \<Longrightarrow>
   fst (auto_select_loop env pilot cfg cs bn bs) = bn"
proof (induction cs)
  case Nil
  then show ?case by simp
next
  case (Cons c cs)
  obtain x ev where p: "pilot_score env pilot cfg c = (x, ev)"
    by (cases "pilot_score env pilot cfg c")
  from Cons.prems have rest: "\<forall>n \<in> set cs. \<forall>t. fst (pilot_score env pilot cfg n) = Inr t \<longrightarrow> t \<le> bs"
    by simp
  show ?case
  proof (cases x)
    case (Inl e)
    with p Cons.IH [OF rest] show ?thesis by simp
  next
    case (Inr t)
    with p Cons.prems have "t \<le> bs" by simp
    with p Inr Cons.IH [OF rest] show ?thesis by simp
  qed
qed

lemma auto_select_loop_best:
  "i < length cs \<Longrightarrow> fst (pilot_score env pilot cfg (cs ! i)) = Inr s \<Longrightarrow> bs < s \<Longrightarrow>
   \<forall>n \<in> set cs. \<forall>t. fst (pilot_score env pilot cfg n) = Inr t \<longrightarrow> t \<le> s \<Longrightarrow>
   \<forall>n \<in> set (take i cs). \<forall>t. fst (pilot_score env pilot cfg n) = Inr t \<longrightarrow> t < s \<Longrightarrow>
   fst (auto_select_loop env pilot cfg cs bn bs) = Some (cs ! i)"
proof (induction cs arbitrary: i bn bs)
  case Nil
  then show ?case by simp
next
  case (Cons c cs)
  obtain x ev where p: "pilot_score env pilot cfg c = (x, ev)"
    by (cases "pilot_score env pilot cfg c")
  from Cons.prems(4)
  have le: "\<forall>n \<in> set cs. \<forall>t. fst (pilot_score env pilot cfg n) = Inr t \<longrightarrow> t \<le> s"
    by simp
  show ?case
  proof (cases i)
    case 0
    with Cons.prems(2) p have x: "x = Inr s" by simp
    from auto_select_loop_keep [OF le]
    have "fst (auto_select_loop env pilot cfg cs (Some c) s) = Some c" .
    with p x Cons.prems(3) 0 show ?thesis by simp
  next
    case (Suc k)
    with Cons.prems have k: "k < length cs"
      and sk: "fst (pilot_score env pilot cfg (cs ! k)) = Inr s"
      and lt: "\<forall>n \<in> set (take k cs). \<forall>t. fst (pilot_score env pilot cfg n) = Inr t \<longrightarrow> t < s"
      and c: "\<forall>t. fst (pilot_score env pilot cfg c) = Inr t \<longrightarrow> t < s"
      by simp_all
    show ?thesis
    proof (cases x)
      case (Inl e)
      with p Suc Cons.IH [OF k sk Cons.prems(3) le lt, of bn] show ?thesis by simp
    next
      case (Inr t)
      with p c have ts: "t < s" by simp
      show ?thesis
      proof (cases "bs < t")
        case True
        with p Inr Suc Cons.IH [OF k sk ts le lt, of "Some c"] show ?thesis by simp
      next
        case False
        with p Inr Suc Cons.IH [OF k sk Cons.prems(3) le lt, of bn] show ?thesis by simp
      qed
    qed
  qed
qed

lemma auto_select_loop_member:
  "fst (auto_select_loop env pilot cfg cs bn bs) = Some n \<Longrightarrow>
   bn = Some n \<or> (n \<in> set cs \<and> \<not> isl (fst (pilot_score env pilot cfg n)))"
proof (induction cs arbitrary: bn bs)
  case Nil
  then show ?case by simp
next
  case (Cons c cs)
  obtain x ev where p: "pilot_score env pilot cfg c = (x, ev)"
    by (cases "pilot_score env pilot cfg c")
  show ?case
  proof (cases x)
    case (Inl e)
    with p Cons.prems have "fst (auto_select_loop env pilot cfg cs bn bs) = Some n" by simp
    from Cons.IH [OF this] show ?thesis by auto
  next
    case (Inr t)
    show ?thesis
    proof (cases "bs < t")
      case True
      with p Inr Cons.prems have "fst (auto_select_loop env pilot cfg cs (Some c) t) = Some n"
        by simp
      from Cons.IH [OF this] p Inr show ?thesis by auto
    next
      case False
      with p Inr Cons.prems have "fst (auto_select_loop env pilot cfg cs bn bs) = Some n"
        by simp
      from Cons.IH [OF this] show ?thesis by auto
    qed
  qed
qed

lemma auto_select_engine_result:
  "pilot_crop env images 512 = Inr pilot \<Longrightarrow>
   fst (auto_select_engine env images cs cfg) =
     (case fst (auto_select_loop env pilot cfg cs None (- 1)) of
        Some n \<Rightarrow> if n \<noteq> [] then Inr n else (case cs of [] \<Rightarrow> Inl IndexError | c # _ \<Rightarrow> Inr c)
      | None \<Rightarrow> (case cs of [] \<Rightarrow> Inl IndexError | c # _ \<Rightarrow> Inr c))"
  by (simp add: auto_select_engine_def split: prod.split option.split)

lemma auto_select_engine_crop_raises:
  "pilot_crop env images 512 = Inl e \<Longrightarrow> auto_select_engine env images cs cfg = (Inl e, [])"
  by (simp add: auto_select_engine_def)

lemma auto_select_engine_returns:
  assumes "pilot_crop env images 512 = Inr pilot" and "cs \<noteq> []"
  shows "\<exists>c \<in> set cs. fst (auto_select_engine env images cs cfg) = Inr c"
proof -
  from assms(2) obtain c0 cs' where cs: "cs = c0 # cs'" by (cases cs) auto
  show ?thesis
  proof (cases "fst (auto_select_loop env pilot cfg cs None (- 1))")
    case None
    with cs show ?thesis by (simp add: auto_select_engine_result [OF assms(1)])
  next
    case (Some b)
    from auto_select_loop_member [OF Some] have "b \<in> set cs" by simp
    with Some cs show ?thesis by (auto simp: auto_select_engine_result [OF assms(1)])
  qed
qed

text \<open>
  The pilot crop runs before the loop of the selector and outside its \<^verbatim>\<open>try\<close>: on an
  image whose crop raises, the selector raises, although the candidate list is not empty, and
  so does the image entry point with the engine \<^verbatim>\<open>auto\<close>.
\<close>

theorem auto_select_raises_counterexample:
  "auto_select_engine (unreadable_image_env xyz_registry) [0]
     [lit ''paddle'', lit ''easyocr'', lit ''tesseract''] None =
     (Inl (OtherException (lit ''image file is truncated'')), []) \<and>
   fst (recognize_images (unreadable_image_env xyz_registry) [0] (lit ''auto'') None 0.6) =
     Inl (OtherException (lit ''image file is truncated''))"
  by (simp add: unreadable_image_env_def stub_env_def auto_select_engine_def pilot_crop_def
      recognize_images_def choose_engine_def ensure_common_def cfg_or_empty_def)

text \<open>
  C5 (as amended). The auto-selector. The score of a candidate is the confidence of its pilot
  run, to which 0.05 is added (in floating point) when one of the twelve Turkish letters
  occurs among the first 512 characters of the pilot text; a candidate whose construction or
  pilot run raises has no score. When the pilot crop of the first image succeeds, the
  candidate returned is the first one with the highest score: if the candidate at position
  \<open>i\<close> has the score \<open>s\<close>, no candidate has a higher score and every candidate before it has
  a lower one, then the selector returns it (here \<open>s\<close> is above the initial best score
  \<open>-1\<close>, as it is when the adapters keep confidences in \<open>[0, 1]\<close>, which the contract of
  \<^verbatim>\<open>RecognizeResult\<close> asks); when every candidate raises, the selector returns the first
  candidate; and for a non-empty candidate list the selector does not raise, and what it
  returns is a candidate. When the pilot crop raises, the selector raises that exception and
  tries no candidate.
\<close>

theorem auto_select_highest_score:
  "(build_adapter env n = Inr a \<and> adapter_recognize_images a pilot cfg = Inr res \<longrightarrow>
      fst (pilot_score env pilot cfg n) =
        Inr (if \<exists>ch \<in> set turkish_chars. ch \<in> set (take 512 (res_text res))
             then float_add env (mean_confidence res) 0.05 else mean_confidence res)) \<and>
   (build_adapter env n = Inl e \<or>
    build_adapter env n = Inr a \<and> adapter_recognize_images a pilot cfg = Inl e \<longrightarrow>
      fst (pilot_score env pilot cfg n) = Inl e) \<and>
   (pilot_crop env images 512 = Inr pilot \<and> i < length candidates \<and>
    fst (pilot_score env pilot cfg (candidates ! i)) = Inr s \<and> - 1 < s \<and>
    (\<forall>c \<in> set candidates. \<forall>t. fst (pilot_score env pilot cfg c) = Inr t \<longrightarrow> t \<le> s) \<and>
    (\<forall>c \<in> set (take i candidates). \<forall>t. fst (pilot_score env pilot cfg c) = Inr t \<longrightarrow> t < s) \<longrightarrow>
      fst (auto_select_engine env images candidates cfg) = Inr (candidates ! i)) \<and>
   (pilot_crop env images 512 = Inr pilot \<and> candidates \<noteq> [] \<and>
    (\<forall>c \<in> set candidates. isl (fst (pilot_score env pilot cfg c))) \<longrightarrow>
      fst (auto_select_engine env images candidates cfg) = Inr (hd candidates)) \<and>
   (pilot_crop env images 512 = Inr pilot \<and> candidates \<noteq> [] \<longrightarrow>
      (\<exists>c \<in> set candidates. fst (auto_select_engine env images candidates cfg) = Inr c)) \<and>
   (pilot_crop env images 512 = Inl e \<longrightarrow>
      auto_select_engine env images candidates cfg = (Inl e, []))"
proof (intro conjI impI)
  assume "build_adapter env n = Inr a \<and> adapter_recognize_images a pilot cfg = Inr res"
  then show "fst (pilot_score env pilot cfg n) =
        Inr (if \<exists>ch \<in> set turkish_chars. ch \<in> set (take 512 (res_text res))
             then float_add env (mean_confidence res) 0.05 else mean_confidence res)"
    by (simp add: pilot_score_def Let_def list_ex_iff)
next
  assume "build_adapter env n = Inl e \<or>
    build_adapter env n = Inr a \<and> adapter_recognize_images a pilot cfg = Inl e"
  then show "fst (pilot_score env pilot cfg n) = Inl e"
    by (auto simp: pilot_score_def)
next
  assume h: "pilot_crop env images 512 = Inr pilot \<and> i < length candidates \<and>
    fst (pilot_score env pilot cfg (candidates ! i)) = Inr s \<and> - 1 < s \<and>
    (\<forall>c \<in> set candidates. \<forall>t. fst (pilot_score env pilot cfg c) = Inr t \<longrightarrow> t \<le> s) \<and>
    (\<forall>c \<in> set (take i candidates). \<forall>t. fst (pilot_score env pilot cfg c) = Inr t \<longrightarrow> t < s)"
  then have p: "pilot_crop env images 512 = Inr pilot" by simp
  from h have "fst (auto_select_loop env pilot cfg candidates None (- 1)) = Some (candidates ! i)"
    using auto_select_loop_best [of i candidates env pilot cfg s "- 1" None] by blast
  moreover have "candidates ! i \<noteq> []"
    using h pilot_score_empty [of env pilot cfg] by auto
  ultimately show "fst (auto_select_engine env images candidates cfg) = Inr (candidates ! i)"
    by (simp add: auto_select_engine_result [OF p])
next
  assume h: "pilot_crop env images 512 = Inr pilot \<and> candidates \<noteq> [] \<and>
    (\<forall>c \<in> set candidates. isl (fst (pilot_score env pilot cfg c)))"
  then have p: "pilot_crop env images 512 = Inr pilot" by simp
  from h have "\<forall>c \<in> set candidates. \<forall>t. fst (pilot_score env pilot cfg c) = Inr t \<longrightarrow> t \<le> - 1"
    by auto
  from auto_select_loop_keep [OF this]
  have "fst (auto_select_loop env pilot cfg candidates None (- 1)) = None" .
  with h show "fst (auto_select_engine env images candidates cfg) = Inr (hd candidates)"
    by (cases candidates) (simp_all add: auto_select_engine_result [OF p])
next
  assume "pilot_crop env images 512 = Inr pilot \<and> candidates \<noteq> []"
  then show "\<exists>c \<in> set candidates. fst (auto_select_engine env images candidates cfg) = Inr c"
    using auto_select_engine_returns by blast
next
  assume "pilot_crop env images 512 = Inl e"
  then show "auto_select_engine env images candidates cfg = (Inl e, [])"
    by (rule auto_select_engine_crop_raises)
qed

theorem auto_select_highest_score_witness:
  "fst (auto_select_engine (stub_env bonus_registry (Inl IndexError)) [0]
          [lit ''paddle'', lit ''easyocr'', lit ''tesseract''] None) = Inr (lit ''easyocr'') \<and>
   fst (auto_select_engine (rounding_env near_tie_registry) [0]
          [lit ''paddle'', lit ''easyocr'', lit ''tesseract''] None) = Inr (lit ''easyocr'') \<and>
   fst (auto_select_engine (stub_env tie_registry (Inl IndexError)) [0]
          [lit ''paddle'', lit ''easyocr'', lit ''tesseract''] None) = Inr (lit ''paddle'') \<and>
   fst (auto_select_engine (stub_env no_registry (Inl IndexError)) [0]
          [lit ''paddle'', lit ''easyocr'', lit ''tesseract''] None) = Inr (lit ''paddle'') \<and>
   auto_select_engine (unreadable_image_env no_registry) [0]
          [lit ''paddle'', lit ''easyocr'', lit ''tesseract''] None =
     (Inl (OtherException (lit ''image file is truncated'')), [])"
  using auto_select_highest_score [where env = "stub_env bonus_registry (Inl IndexError)"
      and images = "[0]" and pilot = "[0]" and cfg = None and n = "lit ''easyocr''"
      and a = "stub_adapter (lit ''easyocr'') False (Inl (NotImplementedError []))
                 (\<lambda>images. Inr (stub_result [98, 32, 231] 0.65 (lit ''easyocr'')))"
      and res = "stub_result [98, 32, 231] 0.65 (lit ''easyocr'')"
      and candidates = "[lit ''paddle'', lit ''easyocr'', lit ''tesseract'']"
      and i = 1 and s = "0.7" and e = "ImportError []"]
    auto_select_highest_score [where env = "stub_env bonus_registry (Inl IndexError)"
      and images = "[0]" and pilot = "[0]" and cfg = None and n = "lit ''paddle''"
      and a = "stub_adapter (lit ''paddle'') False (Inl (NotImplementedError []))
                 (\<lambda>images. Inr (stub_result (lit ''a'') 0.6 (lit ''paddle'')))"
      and res = "stub_result (lit ''a'') 0.6 (lit ''paddle'')"
      and candidates = "[lit ''paddle'', lit ''easyocr'', lit ''tesseract'']"
      and i = 1 and s = "0.7" and e = "ImportError []"]
    auto_select_highest_score [where env = "rounding_env near_tie_registry"
      and images = "[0]" and pilot = "[0]" and cfg = None and n = "lit ''easyocr''"
      and a = "stub_adapter (lit ''easyocr'') False (Inl (NotImplementedError []))
                 (\<lambda>images. Inr (stub_result [98, 32, 231] 0.65 (lit ''easyocr'')))"
      and res = "stub_result [98, 32, 231] 0.65 (lit ''easyocr'')"
      and candidates = "[lit ''paddle'', lit ''easyocr'', lit ''tesseract'']"
      and i = 1 and s = "0.7000000000000001" and e = "ImportError []"]
    auto_select_highest_score [where env = "stub_env tie_registry (Inl IndexError)"
      and images = "[0]" and pilot = "[0]" and cfg = None and n = "lit ''tesseract''"
      and candidates = "[lit ''paddle'', lit ''easyocr'', lit ''tesseract'']"
      and i = 0 and s = "0.6" and e = "ImportError []"]
    auto_select_highest_score [where env = "stub_env no_registry (Inl IndexError)"
      and images = "[0]" and pilot = "[0]" and cfg = None and n = "lit ''tesseract''"
      and candidates = "[lit ''paddle'', lit ''easyocr'', lit ''tesseract'']"
      and i = 0 and s = "0.6" and e = "ImportError []"]
    auto_select_highest_score [where env = "unreadable_image_env no_registry"
      and images = "[0]" and pilot = "[0]" and cfg = None and n = "lit ''tesseract''"
      and candidates = "[lit ''paddle'', lit ''easyocr'', lit ''tesseract'']"
      and i = 0 and s = "0.6" and e = "OtherException (lit ''image file is truncated'')"]
  by (simp add: stub_env_def stub_adapter_def stub_result_def image_only_def build_adapter_def
      lit_def lower_def Let_def pilot_score_def pilot_crop_def turkish_chars_def
      bonus_registry_def tie_registry_def no_registry_def unreadable_image_env_def
      near_tie_registry_def rounding_env_def)

subsection \<open>The result invariant\<close>

lemma pdf_fallback_source:
  "fst (pdf_fallback env path images cfg thr order l0) = Inr r \<Longrightarrow>
   \<exists>res. (l0 = Some res \<or> (\<exists>n \<in> set order. fst (try_engine_pdf env path images cfg n) = Inr res)) \<and>
     out_text r = res_text res \<and> ocr_confidence r = Some (mean_confidence res)"
proof (induction order arbitrary: l0)
  case Nil
  then show ?case by (cases l0) auto
next
  case (Cons a order)
  obtain x ev where t: "try_engine_pdf env path images cfg a = (x, ev)"
    by (cases "try_engine_pdf env path images cfg a")
  show ?case
  proof (cases x)
    case (Inl e)
    with t Cons.prems have "fst (pdf_fallback env path images cfg thr order l0) = Inr r"
      by simp
    from Cons.IH [OF this] show ?thesis by auto
  next
    case (Inr res)
    show ?thesis
    proof (cases "thr \<le> mean_confidence res")
      case True
      with t Inr Cons.prems show ?thesis by auto
    next
      case False
      with t Inr Cons.prems
      have "fst (pdf_fallback env path images cfg thr order (Some res)) = Inr r"
        by simp
      from Cons.IH [OF this] t Inr show ?thesis by auto
    qed
  qed
qed

lemma images_fallback_source:
  "fst (images_fallback env images cfg thr order l0) = Inr r \<Longrightarrow>
   \<exists>res. (l0 = Some res \<or> (\<exists>n \<in> set order. fst (try_engine_images env images cfg n) = Inr res)) \<and>
     out_text r = res_text res \<and> ocr_confidence r = Some (mean_confidence res)"
proof (induction order arbitrary: l0)
  case Nil
  then show ?case by (cases l0) auto
next
  case (Cons a order)
  obtain x ev where t: "try_engine_images env images cfg a = (x, ev)"
    by (cases "try_engine_images env images cfg a")
  show ?case
  proof (cases x)
    case (Inl e)
    with t Cons.prems have "fst (images_fallback env images cfg thr order l0) = Inr r"
      by simp
    from Cons.IH [OF this] show ?thesis by auto
  next
    case (Inr res)
    show ?thesis
    proof (cases "thr \<le> mean_confidence res")
      case True
      with t Inr Cons.prems show ?thesis by auto
    next
      case False
      with t Inr Cons.prems
      have "fst (images_fallback env images cfg thr order (Some res)) = Inr r"
        by simp
      from Cons.IH [OF this] t Inr show ?thesis by auto
    qed
  qed
qed

lemma pdf_fallback_failure:
  "fst (pdf_fallback env path images cfg thr order l0) = Inl e \<Longrightarrow>
   l0 = None \<and> e = RuntimeError (lit ''No OCR engine succeeded for given PDF'') \<and>
   (\<forall>n \<in> set order. isl (fst (try_engine_pdf env path images cfg n)))"
proof (induction order arbitrary: l0)
  case Nil
  then show ?case by (cases l0) auto
next
  case (Cons a order)
  obtain x ev where t: "try_engine_pdf env path images cfg a = (x, ev)"
    by (cases "try_engine_pdf env path images cfg a")
  show ?case
  proof (cases x)
    case (Inl e')
    with t Cons.prems have "fst (pdf_fallback env path images cfg thr order l0) = Inl e"
      by simp
    from Cons.IH [OF this] t Inl show ?thesis by simp
  next
    case (Inr res)
    show ?thesis
    proof (cases "thr \<le> mean_confidence res")
      case True
      with t Inr Cons.prems show ?thesis by simp
    next
      case False
      with t Inr Cons.prems
      have "fst (pdf_fallback env path images cfg thr order (Some res)) = Inl e"
        by simp
      from Cons.IH [OF this] show ?thesis by simp
    qed
  qed
qed

lemma images_fallback_failure:
  "fst (images_fallback env images cfg thr order l0) = Inl e \<Longrightarrow>
   l0 = None \<and> e = RuntimeError (lit ''No OCR engine succeeded for images'') \<and>
   (\<forall>n \<in> set order. isl (fst (try_engine_images env images cfg n)))"
proof (induction order arbitrary: l0)
  case Nil
  then show ?case by (cases l0) auto
next
  case (Cons a order)
  obtain x ev where t: "try_engine_images env images cfg a = (x, ev)"
    by (cases "try_engine_images env images cfg a")
  show ?case
  proof (cases x)
    case (Inl e')
    with t Cons.prems have "fst (images_fallback env images cfg thr order l0) = Inl e"
      by simp
    from Cons.IH [OF this] t Inl show ?thesis by simp
  next
    case (Inr res)
    show ?thesis
    proof (cases "thr \<le> mean_confidence res")
      case True
      with t Inr Cons.prems show ?thesis by simp
    next
      case False
      with t Inr Cons.prems
      have "fst (images_fallback env images cfg thr order (Some res)) = Inl e"
        by simp
      from Cons.IH [OF this] show ?thesis by simp
    qed
  qed
qed

text \<open>The choice of the engine raises only through the pilot crop of the auto-selector.\<close>

lemma choose_engine_failure:
  assumes "fst (choose_engine env images engine_id cfg) = Inl e"
  shows "engine_id = lit ''auto'' \<and> pilot_crop env images 512 = Inl e"
proof -
  from assms have a: "engine_id = lit ''auto''"
    and f: "fst (auto_select_engine env images default_candidates (Some cfg)) = Inl e"
    by (auto simp: choose_engine_def split: if_splits)
  show ?thesis
  proof (cases "pilot_crop env images 512")
    case (Inl e')
    with f a show ?thesis by (simp add: auto_select_engine_crop_raises)
  next
    case (Inr pilot)
    have "default_candidates \<noteq> []" by (simp add: default_candidates_def)
    from auto_select_engine_returns [OF Inr this, of "Some cfg"] f show ?thesis by auto
  qed
qed

lemma recognize_images_result:
  assumes "fst (recognize_images env images engine_id ocr_cfg thr) = Inr r"
  shows "used_ocr r \<and> input_path r = None \<and>
     (\<exists>n c. engine r = Some n \<and> ocr_confidence r = Some c) \<and>
     (\<exists>chosen n res. fst (choose_engine env images engine_id (cfg_or_empty ocr_cfg)) = Inr chosen \<and>
        n \<in> set (images_order chosen) \<and>
        fst (try_engine_images env images (cfg_or_empty ocr_cfg) n) = Inr res \<and>
        out_text r = res_text res \<and> ocr_confidence r = Some (mean_confidence res))"
proof -
  obtain y ev where c: "choose_engine env images engine_id (cfg_or_empty ocr_cfg) = (y, ev)"
    by (cases "choose_engine env images engine_id (cfg_or_empty ocr_cfg)")
  show ?thesis
  proof (cases y)
    case (Inl e)
    with assms c show ?thesis by (simp add: recognize_images_def Let_def)
  next
    case (Inr chosen)
    with assms c
    have f: "fst (images_fallback env images (cfg_or_empty ocr_cfg) thr (images_order chosen) None)
        = Inr r"
      by (simp add: recognize_images_def Let_def)
    from images_fallback_result [OF f] images_fallback_source [OF f] c Inr show ?thesis by auto
  qed
qed

lemma recognize_images_failure:
  assumes "fst (recognize_images env images engine_id ocr_cfg thr) = Inl e"
  shows "engine_id = lit ''auto'' \<and> pilot_crop env images 512 = Inl e \<or>
     (\<exists>chosen. fst (choose_engine env images engine_id (cfg_or_empty ocr_cfg)) = Inr chosen \<and>
        e = RuntimeError (lit ''No OCR engine succeeded for images'') \<and>
        (\<forall>n \<in> set (images_order chosen).
           isl (fst (try_engine_images env images (cfg_or_empty ocr_cfg) n))))"
proof -
  obtain y ev where c: "choose_engine env images engine_id (cfg_or_empty ocr_cfg) = (y, ev)"
    by (cases "choose_engine env images engine_id (cfg_or_empty ocr_cfg)")
  show ?thesis
  proof (cases y)
    case (Inl e')
    with assms c have "fst (choose_engine env images engine_id (cfg_or_empty ocr_cfg)) = Inl e"
      by (simp add: recognize_images_def Let_def)
    from choose_engine_failure [OF this] show ?thesis by simp
  next
    case (Inr chosen)
    with assms c
    have "fst (images_fallback env images (cfg_or_empty ocr_cfg) thr (images_order chosen) None)
        = Inl e"
      by (simp add: recognize_images_def Let_def)
    from images_fallback_failure [OF this] c Inr show ?thesis by simp
  qed
qed

lemma recognize_pdf_ocr_result:
  assumes g: "\<not> (fst (vector_text_step env path prefer_ocr) \<noteq> [] \<and>
              is_sufficient_vector_text (fst (vector_text_step env path prefer_ocr)) 64)"
    and r: "fst (recognize_pdf env path engine_id prefer_ocr ocr_cfg dpi first_page last_page thr fo)
              = Inr r"
  shows "\<exists>images chosen n res.
     convert_from_path env path dpi first_page last_page = Inr images \<and>
     fst (choose_engine env images engine_id (cfg_or_empty ocr_cfg)) = Inr chosen \<and>
     n \<in> set (pdf_order chosen fo) \<and>
     fst (try_engine_pdf env path images (cfg_or_empty ocr_cfg) n) = Inr res \<and>
     out_text r = res_text res \<and> ocr_confidence r = Some (mean_confidence res)"
proof -
  obtain x ev2 where l: "load_images_from_pdf env path dpi first_page last_page = (x, ev2)"
    by (cases "load_images_from_pdf env path dpi first_page last_page")
  show ?thesis
  proof (cases x)
    case (Inl e)
    with r l show ?thesis by (simp add: recognize_pdf_insufficient [OF g])
  next
    case (Inr images)
    with l have cv: "convert_from_path env path dpi first_page last_page = Inr images"
      by (auto simp: load_images_from_pdf_def split: if_splits)
    obtain y ev3 where c: "choose_engine env images engine_id (cfg_or_empty ocr_cfg) = (y, ev3)"
      by (cases "choose_engine env images engine_id (cfg_or_empty ocr_cfg)")
    show ?thesis
    proof (cases y)
      case (Inl e)
      with r l c Inr show ?thesis by (simp add: recognize_pdf_insufficient [OF g])
    next
      case chosen: (Inr chosen)
      with r l c Inr
      have "fst (pdf_fallback env path images (cfg_or_empty ocr_cfg) thr
                   (pdf_order chosen fo) None) = Inr r"
        by (simp add: recognize_pdf_insufficient [OF g])
      from pdf_fallback_source [OF this] cv c chosen show ?thesis by auto
    qed
  qed
qed

lemma recognize_pdf_failure:
  assumes "fst (recognize_pdf env path engine_id prefer_ocr ocr_cfg dpi first_page last_page thr fo)
             = Inl e"
  shows "fst (load_images_from_pdf env path dpi first_page last_page) = Inl e \<or>
     (\<exists>images. fst (load_images_from_pdf env path dpi first_page last_page) = Inr images \<and>
        (engine_id = lit ''auto'' \<and> pilot_crop env images 512 = Inl e \<or>
         (\<exists>chosen. fst (choose_engine env images engine_id (cfg_or_empty ocr_cfg)) = Inr chosen \<and>
            e = RuntimeError (lit ''No OCR engine succeeded for given PDF'') \<and>
            (\<forall>n \<in> set (pdf_order chosen fo).
               isl (fst (try_engine_pdf env path images (cfg_or_empty ocr_cfg) n))))))"
proof -
  let ?vt = "fst (vector_text_step env path prefer_ocr)"
  have g: "\<not> (?vt \<noteq> [] \<and> is_sufficient_vector_text ?vt 64)"
  proof
    assume "?vt \<noteq> [] \<and> is_sufficient_vector_text ?vt 64"
    then have "\<exists>v. fst (recognize_pdf env path engine_id prefer_ocr ocr_cfg dpi first_page
                         last_page thr fo) = Inr v"
      using recognize_pdf_sufficient [of env path prefer_ocr engine_id ocr_cfg dpi first_page
          last_page thr fo] by simp
    with assms show False by simp
  qed
  obtain x ev2 where l: "load_images_from_pdf env path dpi first_page last_page = (x, ev2)"
    by (cases "load_images_from_pdf env path dpi first_page last_page")
  show ?thesis
  proof (cases x)
    case (Inl e')
    with assms l show ?thesis by (simp add: recognize_pdf_insufficient [OF g])
  next
    case (Inr images)
    obtain y ev3 where c: "choose_engine env images engine_id (cfg_or_empty ocr_cfg) = (y, ev3)"
      by (cases "choose_engine env images engine_id (cfg_or_empty ocr_cfg)")
    show ?thesis
    proof (cases y)
      case (Inl e')
      with assms l c Inr
      have "fst (choose_engine env images engine_id (cfg_or_empty ocr_cfg)) = Inl e"
        by (simp add: recognize_pdf_insufficient [OF g])
      from choose_engine_failure [OF this] l Inr show ?thesis by simp
    next
      case chosen: (Inr chosen)
      with assms l c Inr
      have "fst (pdf_fallback env path images (cfg_or_empty ocr_cfg) thr
                   (pdf_order chosen fo) None) = Inl e"
        by (simp add: recognize_pdf_insufficient [OF g])
      from pdf_fallback_failure [OF this] l Inr c chosen show ?thesis by simp
    qed
  qed
qed

text \<open>
  An engine that returns an empty text is a success like any other: the image entry point and
  the document entry point both return it, with \<^verbatim>\<open>used_ocr\<close> true and an empty text.
\<close>

theorem empty_text_success_counterexample:
  "fst (recognize_images (stub_env blank_registry (Inl IndexError)) [0] (lit ''paddle'') None 0.6) =
     Inr \<lparr>input_path = None, used_ocr = True, engine = Some (lit ''paddle''),
          ocr_confidence = Some 0, out_text = [], meta = []\<rparr> \<and>
   fst (recognize_pdf (stub_env blank_registry (Inl IndexError)) (lit ''a.pdf'') (lit ''paddle'')
          False None 300 None None 0.6 None) =
     Inr \<lparr>input_path = Some (lit ''a.pdf''), used_ocr = True, engine = Some (lit ''paddle''),
          ocr_confidence = Some 0, out_text = [], meta = []\<rparr>"
  by (simp add: entry_defs stub_defs blank_registry_def)

text \<open>
  C3 (as amended). Every result an entry point returns satisfies: if \<^verbatim>\<open>used_ocr\<close> is false
  (which only the document entry point can return) then engine and confidence are absent and
  the text is the embedded text the extractor returned, which is not empty; if
  \<^verbatim>\<open>used_ocr\<close> is true then engine and confidence are present, and for the document and
  the image entry point the text and the confidence are those of a result that an engine of
  the executed candidate order returned on the full input. That text may be empty. An entry
  point raises only when the rasterization raises, when the pilot crop of the auto-selector
  raises, or, with \<^verbatim>\<open>RuntimeError("No OCR engine succeeded ...")\<close>, when no engine of the
  executed candidate order returned a result on the full input (a result of a pilot run does
  not count); the handwriting entry point raises only when its printed pass does.
\<close>

theorem ingest_result_invariant:
  "(fst (recognize_pdf env path engine_id prefer_ocr ocr_cfg dpi first_page last_page thr fo)
      = Inr r \<longrightarrow>
      (if used_ocr r
       then (\<exists>n c. engine r = Some n \<and> ocr_confidence r = Some c) \<and>
            (\<exists>images chosen n res.
               convert_from_path env path dpi first_page last_page = Inr images \<and>
               fst (choose_engine env images engine_id (cfg_or_empty ocr_cfg)) = Inr chosen \<and>
               n \<in> set (pdf_order chosen fo) \<and>
               fst (try_engine_pdf env path images (cfg_or_empty ocr_cfg) n) = Inr res \<and>
               out_text r = res_text res \<and> ocr_confidence r = Some (mean_confidence res))
       else engine r = None \<and> ocr_confidence r = None \<and>
            pdfminer_extract_text env path = Inr (out_text r) \<and> out_text r \<noteq> [])) \<and>
   (fst (recognize_pdf env path engine_id prefer_ocr ocr_cfg dpi first_page last_page thr fo)
      = Inl e \<longrightarrow>
      fst (load_images_from_pdf env path dpi first_page last_page) = Inl e \<or>
      (\<exists>images. fst (load_images_from_pdf env path dpi first_page last_page) = Inr images \<and>
         (engine_id = lit ''auto'' \<and> pilot_crop env images 512 = Inl e \<or>
          (\<exists>chosen.
             fst (choose_engine env images engine_id (cfg_or_empty ocr_cfg)) = Inr chosen \<and>
             e = RuntimeError (lit ''No OCR engine succeeded for given PDF'') \<and>
             (\<forall>n \<in> set (pdf_order chosen fo).
                isl (fst (try_engine_pdf env path images (cfg_or_empty ocr_cfg) n))))))) \<and>
   (fst (recognize_images env images engine_id ocr_cfg thr) = Inr r1 \<longrightarrow>
      used_ocr r1 \<and> (\<exists>n c. engine r1 = Some n \<and> ocr_confidence r1 = Some c) \<and>
      (\<exists>chosen n res.
         fst (choose_engine env images engine_id (cfg_or_empty ocr_cfg)) = Inr chosen \<and>
         n \<in> set (images_order chosen) \<and>
         fst (try_engine_images env images (cfg_or_empty ocr_cfg) n) = Inr res \<and>
         out_text r1 = res_text res \<and> ocr_confidence r1 = Some (mean_confidence res))) \<and>
   (fst (recognize_images env images engine_id ocr_cfg thr) = Inl e1 \<longrightarrow>
      engine_id = lit ''auto'' \<and> pilot_crop env images 512 = Inl e1 \<or>
      (\<exists>chosen.
         fst (choose_engine env images engine_id (cfg_or_empty ocr_cfg)) = Inr chosen \<and>
         e1 = RuntimeError (lit ''No OCR engine succeeded for images'') \<and>
         (\<forall>n \<in> set (images_order chosen).
            isl (fst (try_engine_images env images (cfg_or_empty ocr_cfg) n))))) \<and>
   (fst (maybe_enable_htr env images enable_htr printed_text_engine htr_engine ocr_cfg) = Inr r2
      \<longrightarrow> used_ocr r2 \<and> (\<exists>n c. engine r2 = Some n \<and> ocr_confidence r2 = Some c)) \<and>
   (fst (maybe_enable_htr env images enable_htr printed_text_engine htr_engine ocr_cfg) = Inl e2
      \<longrightarrow> fst (recognize_images env images printed_text_engine ocr_cfg 0.6) = Inl e2)"
proof (intro conjI impI)
  assume r: "fst (recognize_pdf env path engine_id prefer_ocr ocr_cfg dpi first_page last_page thr fo)
      = Inr r"
  let ?vt = "fst (vector_text_step env path prefer_ocr)"
  show "if used_ocr r
       then (\<exists>n c. engine r = Some n \<and> ocr_confidence r = Some c) \<and>
            (\<exists>images chosen n res.
               convert_from_path env path dpi first_page last_page = Inr images \<and>
               fst (choose_engine env images engine_id (cfg_or_empty ocr_cfg)) = Inr chosen \<and>
               n \<in> set (pdf_order chosen fo) \<and>
               fst (try_engine_pdf env path images (cfg_or_empty ocr_cfg) n) = Inr res \<and>
               out_text r = res_text res \<and> ocr_confidence r = Some (mean_confidence res))
       else engine r = None \<and> ocr_confidence r = None \<and>
            pdfminer_extract_text env path = Inr (out_text r) \<and> out_text r \<noteq> []"
  proof (cases "?vt \<noteq> [] \<and> is_sufficient_vector_text ?vt 64")
    case True
    then have "recognize_pdf env path engine_id prefer_ocr ocr_cfg dpi first_page last_page thr fo =
       (Inr \<lparr>input_path = Some path, used_ocr = False, engine = None, ocr_confidence = None,
             out_text = ?vt, meta = [(lit ''vector'', PBool True)]\<rparr>,
        ensure_common env @ snd (vector_text_step env path prefer_ocr))"
      using recognize_pdf_sufficient by blast
    with r have e: "r = \<lparr>input_path = Some path, used_ocr = False, engine = None,
        ocr_confidence = None, out_text = ?vt, meta = [(lit ''vector'', PBool True)]\<rparr>"
      by simp
    from True have "pdfminer_extract_text env path = Inr ?vt"
      by (auto simp: vector_text_step_def split: if_splits sum.splits)
    with True e show ?thesis by simp
  next
    case False
    from recognize_pdf_insufficient_used_ocr [OF False r] recognize_pdf_ocr_result [OF False r]
    show ?thesis by simp
  qed
next
  assume "fst (recognize_pdf env path engine_id prefer_ocr ocr_cfg dpi first_page last_page thr fo)
      = Inl e"
  then show "fst (load_images_from_pdf env path dpi first_page last_page) = Inl e \<or>
      (\<exists>images. fst (load_images_from_pdf env path dpi first_page last_page) = Inr images \<and>
         (engine_id = lit ''auto'' \<and> pilot_crop env images 512 = Inl e \<or>
          (\<exists>chosen.
             fst (choose_engine env images engine_id (cfg_or_empty ocr_cfg)) = Inr chosen \<and>
             e = RuntimeError (lit ''No OCR engine succeeded for given PDF'') \<and>
             (\<forall>n \<in> set (pdf_order chosen fo).
                isl (fst (try_engine_pdf env path images (cfg_or_empty ocr_cfg) n))))))"
    by (rule recognize_pdf_failure)
next
  assume r: "fst (recognize_images env images engine_id ocr_cfg thr) = Inr r1"
  from recognize_images_result [OF r]
  show "used_ocr r1" and "\<exists>n c. engine r1 = Some n \<and> ocr_confidence r1 = Some c"
    and "\<exists>chosen n res.
         fst (choose_engine env images engine_id (cfg_or_empty ocr_cfg)) = Inr chosen \<and>
         n \<in> set (images_order chosen) \<and>
         fst (try_engine_images env images (cfg_or_empty ocr_cfg) n) = Inr res \<and>
         out_text r1 = res_text res \<and> ocr_confidence r1 = Some (mean_confidence res)"
    by blast+
next
  assume "fst (recognize_images env images engine_id ocr_cfg thr) = Inl e1"
  then show "engine_id = lit ''auto'' \<and> pilot_crop env images 512 = Inl e1 \<or>
      (\<exists>chosen.
         fst (choose_engine env images engine_id (cfg_or_empty ocr_cfg)) = Inr chosen \<and>
         e1 = RuntimeError (lit ''No OCR engine succeeded for images'') \<and>
         (\<forall>n \<in> set (images_order chosen).
            isl (fst (try_engine_images env images (cfg_or_empty ocr_cfg) n))))"
    by (rule recognize_images_failure)
next
  assume r: "fst (maybe_enable_htr env images enable_htr printed_text_engine htr_engine ocr_cfg)
    = Inr r2"
  have "used_ocr r2 \<and> (\<exists>n c. engine r2 = Some n \<and> ocr_confidence r2 = Some c)"
  proof (cases enable_htr)
    case False
    with r have "fst (recognize_images env images printed_text_engine ocr_cfg 0.6) = Inr r2"
      by (simp add: maybe_enable_htr_def)
    from recognize_images_result [OF this] show ?thesis by blast
  next
    case True
    obtain x ev where p: "recognize_images env images printed_text_engine ocr_cfg 0.6 = (x, ev)"
      by (cases "recognize_images env images printed_text_engine ocr_cfg 0.6")
    show ?thesis
    proof (cases x)
      case (Inl e)
      with r p True show ?thesis by (simp add: maybe_enable_htr_def)
    next
      case (Inr printed)
      with p have "fst (recognize_images env images printed_text_engine ocr_cfg 0.6) = Inr printed"
        by simp
      from recognize_images_result [OF this]
      have pr: "used_ocr printed \<and> (\<exists>n c. engine printed = Some n \<and> ocr_confidence printed = Some c)"
        by blast
      from r p True Inr pr show ?thesis
        by (auto simp: maybe_enable_htr_def Let_def split: sum.splits)
    qed
  qed
  then show "used_ocr r2" and "\<exists>n c. engine r2 = Some n \<and> ocr_confidence r2 = Some c"
    by blast+
next
  assume r: "fst (maybe_enable_htr env images enable_htr printed_text_engine htr_engine ocr_cfg)
    = Inl e2"
  obtain x ev where p: "recognize_images env images printed_text_engine ocr_cfg 0.6 = (x, ev)"
    by (cases "recognize_images env images printed_text_engine ocr_cfg 0.6")
  from r p show "fst (recognize_images env images printed_text_engine ocr_cfg 0.6) = Inl e2"
    by (cases x) (auto simp: maybe_enable_htr_def Let_def split: if_splits sum.splits)
qed

theorem ingest_result_invariant_witness:
  "fst (recognize_pdf (stub_env blank_registry (Inr (replicate 64 97))) (lit ''a.pdf'')
          (lit ''paddle'') False None 300 None None 0.6 None) =
     Inr \<lparr>input_path = Some (lit ''a.pdf''), used_ocr = False, engine = None,
          ocr_confidence = None, out_text = replicate 64 97,
          meta = [(lit ''vector'', PBool True)]\<rparr> \<and>
   pdfminer_extract_text (stub_env blank_registry (Inr (replicate 64 97))) (lit ''a.pdf'') =
     Inr (replicate 64 97) \<and>
   fst (recognize_images (stub_env blank_registry (Inr (replicate 64 97))) [0] (lit ''paddle'')
          None 0.6) =
     Inr \<lparr>input_path = None, used_ocr = True, engine = Some (lit ''paddle''),
          ocr_confidence = Some 0, out_text = [], meta = []\<rparr> \<and>
   fst (maybe_enable_htr (stub_env blank_registry (Inr (replicate 64 97))) [0] False
          (lit ''paddle'') (lit ''trocr'') None) =
     Inr \<lparr>input_path = None, used_ocr = True, engine = Some (lit ''paddle''),
          ocr_confidence = Some 0, out_text = [], meta = []\<rparr> \<and>
   fst (recognize_pdf (stub_env no_registry (Inl IndexError)) (lit ''a.pdf'') (lit ''paddle'')
          False None 300 None None 0.6 None) =
     Inl (RuntimeError (lit ''No OCR engine succeeded for given PDF'')) \<and>
   fst (recognize_images (stub_env no_registry (Inl IndexError)) [0] (lit ''paddle'') None 0.6) =
     Inl (RuntimeError (lit ''No OCR engine succeeded for images'')) \<and>
   fst (maybe_enable_htr (stub_env no_registry (Inl IndexError)) [0] True (lit ''paddle'')
          (lit ''trocr'') None) =
     Inl (RuntimeError (lit ''No OCR engine succeeded for images''))"
proof -
  let ?E = "stub_env blank_registry (Inr (replicate 64 97))"
  let ?N = "stub_env no_registry (Inl IndexError)"
  let ?v = "\<lparr>input_path = Some (lit ''a.pdf''), used_ocr = False, engine = None,
             ocr_confidence = None, out_text = replicate 64 97,
             meta = [(lit ''vector'', PBool True)]\<rparr>"
  let ?b = "\<lparr>input_path = None, used_ocr = True, engine = Some (lit ''paddle''),
             ocr_confidence = Some 0, out_text = [], meta = []\<rparr>"
  have a: "fst (recognize_pdf ?E (lit ''a.pdf'') (lit ''paddle'') False None 300 None None 0.6 None)
      = Inr ?v"
    by (simp add: entry_defs stub_defs strip_def isspace_def is_sufficient_vector_text_def)
  have b: "fst (recognize_images ?E [0] (lit ''paddle'') None 0.6) = Inr ?b"
    by (simp add: entry_defs stub_defs blank_registry_def)
  have c: "fst (maybe_enable_htr ?E [0] False (lit ''paddle'') (lit ''trocr'') None) = Inr ?b"
    using b by (simp add: maybe_enable_htr_def)
  have d: "fst (recognize_pdf ?N (lit ''a.pdf'') (lit ''paddle'') False None 300 None None 0.6 None)
      = Inl (RuntimeError (lit ''No OCR engine succeeded for given PDF''))"
    by (simp add: entry_defs stub_defs no_registry_def)
  have f: "fst (recognize_images ?N [0] (lit ''paddle'') None 0.6)
      = Inl (RuntimeError (lit ''No OCR engine succeeded for images''))"
    by (simp add: entry_defs stub_defs no_registry_def)
  have g: "fst (maybe_enable_htr ?N [0] True (lit ''paddle'') (lit ''trocr'') None)
      = Inl (RuntimeError (lit ''No OCR engine succeeded for images''))"
    using f
    by (cases "recognize_images ?N [0] (lit ''paddle'') None 0.6")
      (simp add: maybe_enable_htr_def)
  note inv = ingest_result_invariant [where env = ?E and path = "lit ''a.pdf''"
      and engine_id = "lit ''paddle''" and prefer_ocr = False and ocr_cfg = None and dpi = 300
      and first_page = None and last_page = None and thr = "0.6" and fo = None
      and images = "[0]" and enable_htr = False and printed_text_engine = "lit ''paddle''"
      and htr_engine = "lit ''trocr''" and r = ?v and ?r1.0 = ?b and ?r2.0 = ?b]
  from inv a have x: "pdfminer_extract_text ?E (lit ''a.pdf'') = Inr (replicate 64 97)"
    by simp
  from inv b have y: "\<exists>chosen n res.
      fst (choose_engine ?E [0] (lit ''paddle'') (cfg_or_empty None)) = Inr chosen \<and>
      n \<in> set (images_order chosen) \<and>
      fst (try_engine_images ?E [0] (cfg_or_empty None) n) = Inr res \<and>
      out_text ?b = res_text res \<and> ocr_confidence ?b = Some (mean_confidence res)"
    by blast
  note fail = ingest_result_invariant [where env = ?N and path = "lit ''a.pdf''"
      and engine_id = "lit ''paddle''" and prefer_ocr = False and ocr_cfg = None and dpi = 300
      and first_page = None and last_page = None and thr = "0.6" and fo = None
      and images = "[0]" and enable_htr = True and printed_text_engine = "lit ''paddle''"
      and htr_engine = "lit ''trocr''"
      and e = "RuntimeError (lit ''No OCR engine succeeded for given PDF'')"
      and ?e1.0 = "RuntimeError (lit ''No OCR engine succeeded for images'')"
      and ?e2.0 = "RuntimeError (lit ''No OCR engine succeeded for images'')"]
  from fail f have z: "lit ''paddle'' = lit ''auto'' \<and>
        pilot_crop ?N [0] 512 = Inl (RuntimeError (lit ''No OCR engine succeeded for images'')) \<or>
      (\<exists>chosen.
         fst (choose_engine ?N [0] (lit ''paddle'') (cfg_or_empty None)) = Inr chosen \<and>
         RuntimeError (lit ''No OCR engine succeeded for images'') =
           RuntimeError (lit ''No OCR engine succeeded for images'') \<and>
         (\<forall>n \<in> set (images_order chosen).
            isl (fst (try_engine_images ?N [0] (cfg_or_empty None) n))))"
    by blast
  from fail g have w: "fst (recognize_images ?N [0] (lit ''paddle'') None 0.6) =
      Inl (RuntimeError (lit ''No OCR engine succeeded for images''))"
    by blast
  from a b c d w g x y z show ?thesis
    by (simp only: simp_thms)
qed

subsection \<open>The dual-pass combination\<close>

lemma py_max_max: "py_max a b = max a b"
  by (simp add: py_max_def max_def)

text \<open>
  C8. The dual-pass combination. Without \<^verbatim>\<open>enable_htr\<close> the result is the printed-only pass.
  With it, when the printed pass returns \<open>printed\<close> and the handwriting adapter is constructed
  and returns \<open>h\<close>, the combined text is the printed text, one newline, and the handwriting
  text; the confidence is the maximum of the two confidences; and the engine is the printed
  result's engine, \<^verbatim>\<open>+\<close>, and the handwriting result's engine. When the construction of the
  handwriting adapter or its call raises, the result is \<open>printed\<close> itself.
\<close>

theorem dual_pass_combination:
  "maybe_enable_htr env images False printed_text_engine htr_engine ocr_cfg =
     recognize_images env images printed_text_engine ocr_cfg 0.6 \<and>
   (fst (recognize_images env images printed_text_engine ocr_cfg 0.6) = Inr printed \<and>
    build_adapter env htr_engine = Inr a \<and> adapter_recognize_images a images ocr_cfg = Inr h \<longrightarrow>
      (\<exists>p c. engine printed = Some p \<and> ocr_confidence printed = Some c \<and>
         fst (maybe_enable_htr env images True printed_text_engine htr_engine ocr_cfg) =
           Inr \<lparr>input_path = None, used_ocr = True,
                engine = Some (p @ lit ''+'' @ res_engine h),
                ocr_confidence = Some (max c (mean_confidence h)),
                out_text = out_text printed @ [10] @ res_text h,
                meta = [(lit ''printed'', PDict (meta printed)),
                        (lit ''htr'', PDict (res_meta h))]\<rparr>)) \<and>
   (fst (recognize_images env images printed_text_engine ocr_cfg 0.6) = Inr printed \<and>
    (build_adapter env htr_engine = Inl e \<or>
     build_adapter env htr_engine = Inr a \<and> adapter_recognize_images a images ocr_cfg = Inl e) \<longrightarrow>
      fst (maybe_enable_htr env images True printed_text_engine htr_engine ocr_cfg) = Inr printed)"
proof (intro conjI impI)
  show "maybe_enable_htr env images False printed_text_engine htr_engine ocr_cfg =
     recognize_images env images printed_text_engine ocr_cfg 0.6"
    by (simp add: maybe_enable_htr_def)
next
  assume h: "fst (recognize_images env images printed_text_engine ocr_cfg 0.6) = Inr printed \<and>
    build_adapter env htr_engine = Inr a \<and> adapter_recognize_images a images ocr_cfg = Inr h"
  then have p: "fst (recognize_images env images printed_text_engine ocr_cfg 0.6) = Inr printed"
    by simp
  from recognize_images_result [OF p]
  obtain n c where nc: "engine printed = Some n" "ocr_confidence printed = Some c"
    by blast
  obtain ev where r: "recognize_images env images printed_text_engine ocr_cfg 0.6 = (Inr printed, ev)"
    using p by (cases "recognize_images env images printed_text_engine ocr_cfg 0.6") simp
  have "fst (maybe_enable_htr env images True printed_text_engine htr_engine ocr_cfg) =
           Inr \<lparr>input_path = None, used_ocr = True,
                engine = Some (n @ lit ''+'' @ res_engine h),
                ocr_confidence = Some (max c (mean_confidence h)),
                out_text = out_text printed @ [10] @ res_text h,
                meta = [(lit ''printed'', PDict (meta printed)),
                        (lit ''htr'', PDict (res_meta h))]\<rparr>"
    using h r nc by (simp add: maybe_enable_htr_def Let_def py_max_max)
  with nc show "\<exists>p c. engine printed = Some p \<and> ocr_confidence printed = Some c \<and>
         fst (maybe_enable_htr env images True printed_text_engine htr_engine ocr_cfg) =
           Inr \<lparr>input_path = None, used_ocr = True,
                engine = Some (p @ lit ''+'' @ res_engine h),
                ocr_confidence = Some (max c (mean_confidence h)),
                out_text = out_text printed @ [10] @ res_text h,
                meta = [(lit ''printed'', PDict (meta printed)),
                        (lit ''htr'', PDict (res_meta h))]\<rparr>"
    by blast
next
  assume h: "fst (recognize_images env images printed_text_engine ocr_cfg 0.6) = Inr printed \<and>
    (build_adapter env htr_engine = Inl e \<or>
     build_adapter env htr_engine = Inr a \<and> adapter_recognize_images a images ocr_cfg = Inl e)"
  then obtain ev where
    r: "recognize_images env images printed_text_engine ocr_cfg 0.6 = (Inr printed, ev)"
    by (cases "recognize_images env images printed_text_engine ocr_cfg 0.6") simp
  from h r show "fst (maybe_enable_htr env images True printed_text_engine htr_engine ocr_cfg)
    = Inr printed"
    by (auto simp: maybe_enable_htr_def)
qed

theorem dual_pass_combination_witness:
  "fst (maybe_enable_htr (stub_env htr_registry (Inl IndexError)) [0] True (lit ''paddle'')
          (lit ''trocr'') None) =
     Inr \<lparr>input_path = None, used_ocr = True, engine = Some (lit ''paddle+trocr''),
          ocr_confidence = Some 0.8, out_text = [80, 10, 72],
          meta = [(lit ''printed'', PDict []), (lit ''htr'', PDict [])]\<rparr> \<and>
   fst (maybe_enable_htr (stub_env htr_registry (Inl IndexError)) [0] True (lit ''paddle'')
          (lit ''donut'') None) =
     Inr \<lparr>input_path = None, used_ocr = True, engine = Some (lit ''paddle''),
          ocr_confidence = Some 0.5, out_text = lit ''P'', meta = []\<rparr> \<and>
   fst (maybe_enable_htr (stub_env htr_registry (Inl IndexError)) [0] False (lit ''paddle'')
          (lit ''trocr'') None) =
     Inr \<lparr>input_path = None, used_ocr = True, engine = Some (lit ''paddle''),
          ocr_confidence = Some 0.5, out_text = lit ''P'', meta = []\<rparr>"
  using dual_pass_combination [where env = "stub_env htr_registry (Inl IndexError)"
      and images = "[0]" and printed_text_engine = "lit ''paddle''"
      and htr_engine = "lit ''trocr''" and ocr_cfg = None
      and printed = "\<lparr>input_path = None, used_ocr = True, engine = Some (lit ''paddle''),
                       ocr_confidence = Some 0.5, out_text = lit ''P'', meta = []\<rparr>"
      and a = "stub_adapter (lit ''trocr'') False (Inl (NotImplementedError []))
                 (\<lambda>images. Inr (stub_result (lit ''H'') 0.8 (lit ''trocr'')))"
      and h = "stub_result (lit ''H'') 0.8 (lit ''trocr'')" and e = "ImportError []"]
    dual_pass_combination [where env = "stub_env htr_registry (Inl IndexError)"
      and images = "[0]" and printed_text_engine = "lit ''paddle''"
      and htr_engine = "lit ''donut''" and ocr_cfg = None
      and printed = "\<lparr>input_path = None, used_ocr = True, engine = Some (lit ''paddle''),
                       ocr_confidence = Some 0.5, out_text = lit ''P'', meta = []\<rparr>"
      and h = "stub_result (lit ''H'') 0.8 (lit ''trocr'')" and e = "ImportError []"]
  by (auto simp: entry_defs stub_defs htr_registry_def then_events_def max_def)

subsection \<open>PDF-capable engines and the rasterization arguments\<close>

lemma pdf_order_head:
  assumes "case fo of None \<Rightarrow> True | Some xs \<Rightarrow> xs = [] \<or> engine_id \<notin> set xs \<or> hd xs = engine_id"
  shows "\<exists>rest. pdf_order engine_id fo = engine_id # rest"
proof (cases fo)
  case None
  then show ?thesis by (simp add: pdf_order_def append_defaults_filter Let_def)
next
  case (Some xs)
  show ?thesis
  proof (cases xs)
    case Nil
    with Some show ?thesis by (simp add: pdf_order_def append_defaults_filter Let_def)
  next
    case (Cons x xs')
    with Some assms show ?thesis
      by (auto simp: pdf_order_def append_defaults_filter Let_def)
  qed
qed

text \<open>
  With a fallback order that puts an image-only engine before the requested PDF-capable
  engine, the outcome depends on the resolution: at 300 dpi the image-only engine clears the
  threshold on the rasterized page, at 72 dpi it does not and the requested engine answers from
  the PDF.
\<close>

theorem raster_args_counterexample:
  "fst (try_engine_pdf (stub_env dpi_registry (Inl IndexError)) (lit ''a.pdf'') [300] []
          (lit ''paddle'')) =
     Inr (stub_result (lit ''pdf'') 0.8 (lit ''paddle'')) \<and>
   fst (recognize_pdf (stub_env dpi_registry (Inl IndexError)) (lit ''a.pdf'') (lit ''paddle'')
          False None 300 None None 0.6 (Some [lit ''tesseract'', lit ''paddle''])) =
     Inr \<lparr>input_path = Some (lit ''a.pdf''), used_ocr = True, engine = Some (lit ''tesseract''),
          ocr_confidence = Some 0.9, out_text = lit ''sharp'', meta = []\<rparr> \<and>
   fst (recognize_pdf (stub_env dpi_registry (Inl IndexError)) (lit ''a.pdf'') (lit ''paddle'')
          False None 72 None None 0.6 (Some [lit ''tesseract'', lit ''paddle''])) =
     Inr \<lparr>input_path = Some (lit ''a.pdf''), used_ocr = True, engine = Some (lit ''paddle''),
          ocr_confidence = Some 0.8, out_text = lit ''pdf'', meta = []\<rparr>"
  by (simp add: entry_defs stub_defs dpi_registry_def)

text \<open>
  C10 (as amended). Let the engine be given explicitly and be the first of the executed order
  (no fallback order, or one that does not contain the engine or starts with it), let its
  adapter support PDF and its recognition of the document clear the threshold, and let the
  rasterization succeed for both sets of arguments. Then two invocations that differ only in
  \<^verbatim>\<open>dpi\<close>, \<^verbatim>\<open>first_page\<close> and \<^verbatim>\<open>last_page\<close> return the same result; and when the
  vector-text gate does not short-circuit, that result is the adapter's outcome on the
  original path with the configuration, the only adapter call of the run.
\<close>

theorem pdf_engine_ignores_raster_args:
  "engine_id \<noteq> lit ''auto'' \<and>
   (case fo of None \<Rightarrow> True | Some xs \<Rightarrow> xs = [] \<or> engine_id \<notin> set xs \<or> hd xs = engine_id) \<and>
   build_adapter env engine_id = Inr a \<and> supports_pdf a \<and>
   adapter_recognize_pdf a path (Some (cfg_or_empty ocr_cfg)) = Inr res \<and>
   thr \<le> mean_confidence res \<and> has_pdf2image env \<and>
   convert_from_path env path dpi1 first1 last1 = Inr images1 \<and>
   convert_from_path env path dpi2 first2 last2 = Inr images2 \<longrightarrow>
     fst (recognize_pdf env path engine_id prefer_ocr ocr_cfg dpi1 first1 last1 thr fo) =
     fst (recognize_pdf env path engine_id prefer_ocr ocr_cfg dpi2 first2 last2 thr fo) \<and>
     (fst (vector_text_step env path prefer_ocr) = [] \<or>
      \<not> is_sufficient_vector_text (fst (vector_text_step env path prefer_ocr)) 64 \<longrightarrow>
        recognize_pdf env path engine_id prefer_ocr ocr_cfg dpi1 first1 last1 thr fo =
          (Inr \<lparr>input_path = Some path, used_ocr = True, engine = Some engine_id,
                ocr_confidence = Some (mean_confidence res), out_text = res_text res,
                meta = res_meta res\<rparr>,
           ensure_common env @ snd (vector_text_step env path prefer_ocr) @
           [Rasterize path dpi1 first1 last1] @ ensure_for_engine env engine_id @
           [Build engine_id, CallRecognizePdf engine_id path (Some (cfg_or_empty ocr_cfg))]))"
proof (intro impI)
  assume h: "engine_id \<noteq> lit ''auto'' \<and>
   (case fo of None \<Rightarrow> True | Some xs \<Rightarrow> xs = [] \<or> engine_id \<notin> set xs \<or> hd xs = engine_id) \<and>
   build_adapter env engine_id = Inr a \<and> supports_pdf a \<and>
   adapter_recognize_pdf a path (Some (cfg_or_empty ocr_cfg)) = Inr res \<and>
   thr \<le> mean_confidence res \<and> has_pdf2image env \<and>
   convert_from_path env path dpi1 first1 last1 = Inr images1 \<and>
   convert_from_path env path dpi2 first2 last2 = Inr images2"
  let ?vt = "fst (vector_text_step env path prefer_ocr)"
  let ?out = "\<lparr>input_path = Some path, used_ocr = True, engine = Some engine_id,
                ocr_confidence = Some (mean_confidence res), out_text = res_text res,
                meta = res_meta res\<rparr>"
  from h obtain rest where ord: "pdf_order engine_id fo = engine_id # rest"
    using pdf_order_head [where fo = fo and engine_id = engine_id] by blast
  have t: "try_engine_pdf env path images (cfg_or_empty ocr_cfg) engine_id =
      (Inr res, ensure_for_engine env engine_id @
         [Build engine_id, CallRecognizePdf engine_id path (Some (cfg_or_empty ocr_cfg))])"
    for images
    using h by (simp add: try_engine_pdf_def Let_def)
  have run: "recognize_pdf env path engine_id prefer_ocr ocr_cfg dpi f l thr fo =
      (Inr ?out,
       ensure_common env @ snd (vector_text_step env path prefer_ocr) @
       [Rasterize path dpi f l] @ ensure_for_engine env engine_id @
       [Build engine_id, CallRecognizePdf engine_id path (Some (cfg_or_empty ocr_cfg))])"
    if g: "\<not> (?vt \<noteq> [] \<and> is_sufficient_vector_text ?vt 64)"
      and c: "convert_from_path env path dpi f l = Inr images" for dpi f l images
    using h c t ord
    by (simp add: recognize_pdf_insufficient [OF g] load_images_from_pdf_def choose_engine_def
        then_events_def)
  show "fst (recognize_pdf env path engine_id prefer_ocr ocr_cfg dpi1 first1 last1 thr fo) =
     fst (recognize_pdf env path engine_id prefer_ocr ocr_cfg dpi2 first2 last2 thr fo) \<and>
     (?vt = [] \<or> \<not> is_sufficient_vector_text ?vt 64 \<longrightarrow>
        recognize_pdf env path engine_id prefer_ocr ocr_cfg dpi1 first1 last1 thr fo =
          (Inr ?out,
           ensure_common env @ snd (vector_text_step env path prefer_ocr) @
           [Rasterize path dpi1 first1 last1] @ ensure_for_engine env engine_id @
           [Build engine_id, CallRecognizePdf engine_id path (Some (cfg_or_empty ocr_cfg))]))"
  proof (cases "?vt \<noteq> [] \<and> is_sufficient_vector_text ?vt 64")
    case True
    then show ?thesis
      using recognize_pdf_sufficient [of env path prefer_ocr engine_id ocr_cfg dpi1 first1 last1 thr fo]
        recognize_pdf_sufficient [of env path prefer_ocr engine_id ocr_cfg dpi2 first2 last2 thr fo]
      by simp
  next
    case False
    from h have c1: "convert_from_path env path dpi1 first1 last1 = Inr images1"
      and c2: "convert_from_path env path dpi2 first2 last2 = Inr images2" by simp_all
    from run [OF False c1] run [OF False c2] show ?thesis by simp
  qed
qed

theorem pdf_engine_ignores_raster_args_witness:
  "fst (recognize_pdf (stub_env dpi_registry (Inl IndexError)) (lit ''a.pdf'') (lit ''paddle'')
          False None 300 None None 0.6 None) =
   fst (recognize_pdf (stub_env dpi_registry (Inl IndexError)) (lit ''a.pdf'') (lit ''paddle'')
          False None 72 (Some 2) (Some 3) 0.6 None) \<and>
   recognize_pdf (stub_env dpi_registry (Inl IndexError)) (lit ''a.pdf'') (lit ''paddle'')
          False None 300 None None 0.6 None =
     (Inr \<lparr>input_path = Some (lit ''a.pdf''), used_ocr = True, engine = Some (lit ''paddle''),
           ocr_confidence = Some 0.8, out_text = lit ''pdf'', meta = []\<rparr>,
      [ExtractText (lit ''a.pdf''), Rasterize (lit ''a.pdf'') 300 None None,
       Build (lit ''paddle''), CallRecognizePdf (lit ''paddle'') (lit ''a.pdf'') (Some [])])"
  using pdf_engine_ignores_raster_args [where env = "stub_env dpi_registry (Inl IndexError)"
      and path = "lit ''a.pdf''" and engine_id = "lit ''paddle''" and fo = None
      and a = "stub_adapter (lit ''paddle'') True
                 (Inr (stub_result (lit ''pdf'') 0.8 (lit ''paddle'')))
                 (\<lambda>images. Inr (stub_result (lit ''img'') 0.7 (lit ''paddle'')))"
      and ocr_cfg = None and res = "stub_result (lit ''pdf'') 0.8 (lit ''paddle'')"
      and thr = "0.6" and ?dpi1.0 = 300 and ?first1.0 = None and ?last1.0 = None
      and ?images1.0 = "[300]" and ?dpi2.0 = 72 and ?first2.0 = "Some 2" and ?last2.0 = "Some 3"
      and ?images2.0 = "[72]" and prefer_ocr = False]
  by (auto simp: stub_env_def stub_adapter_def stub_result_def dpi_registry_def build_adapter_def
      lit_def lower_def Let_def cfg_or_empty_def vector_text_step_def ensure_common_def
      ensure_for_engine_def)

end
